theory Spec2Isabelle
  imports Main "HOL-Library.AList"
begin

section \<open>The platform: paths and the file system\<close>

text \<open>
  The repository is a TypeScript class on Node.js. It calls the \<^verbatim>\<open>path\<close> module
  (\<^verbatim>\<open>join\<close>, \<^verbatim>\<open>dirname\<close>, \<^verbatim>\<open>basename\<close>) and the \<^verbatim>\<open>fs\<close> module (\<^verbatim>\<open>existsSync\<close>,
  \<^verbatim>\<open>statSync\<close>, \<^verbatim>\<open>readdir\<close>, \<^verbatim>\<open>readFile\<close>, \<^verbatim>\<open>writeFile\<close>, \<^verbatim>\<open>rename\<close>). Neither
  module is part of the repository; this section fixes the model of them that the
  repository's functions are run against.

  Strings are \<^typ>\<open>string\<close>. Paths are POSIX paths with separator \<^verbatim>\<open>/\<close>, and names
  differing in letter case are different names. An error is modelled by its class; the
  message text is left out. Every asynchronous call is modelled by its outcome.
\<close>

subsection \<open>String helpers of the language\<close>

definition endsWith :: "string \<Rightarrow> string \<Rightarrow> bool" where
  \<comment> \<open>\<^verbatim>\<open>s.endsWith(suf)\<close>\<close>
  "endsWith s suf = (length suf \<le> length s \<and> drop (length s - length suf) s = suf)"

text \<open>
  \<^verbatim>\<open>String.prototype.toLowerCase\<close> follows the Unicode case mappings and is not part of the
  repository. The model does not fix it: the function that calls it takes it as its first
  argument, and what is proved of that function is proved for every lowering. On text made
  of ASCII characters only, \<^verbatim>\<open>toLowerCase\<close> maps the letters A to Z to a to z and leaves
  the rest; \<open>toLowerCase_ascii\<close> is that map, and the examples, all in ASCII, are run
  with it.
\<close>

definition toLowerCase_ascii_char :: "char \<Rightarrow> char" where
  "toLowerCase_ascii_char c =
     (let n = (of_char c :: nat) in if 65 \<le> n \<and> n \<le> 90 then char_of (n + 32) else c)"

definition toLowerCase_ascii :: "string \<Rightarrow> string" where
  "toLowerCase_ascii s = map toLowerCase_ascii_char s"

fun string_of_nat :: "nat \<Rightarrow> string" where
  \<comment> \<open>The decimal numeral that a template string writes for a non-negative integer.\<close>
  "string_of_nat n =
     (if n < 10 then [char_of (48 + n)]
      else string_of_nat (n div 10) @ [char_of (48 + n mod 10)])"

declare string_of_nat.simps [simp del]

subsection \<open>The path module\<close>

fun splitOn :: "char \<Rightarrow> string \<Rightarrow> string list" where
  "splitOn c [] = [[]]"
| "splitOn c (x # xs) =
     (if x = c then [] # splitOn c xs
      else (case splitOn c xs of [] \<Rightarrow> [[x]] | y # ys \<Rightarrow> (x # y) # ys))"

fun joinWith :: "string \<Rightarrow> string list \<Rightarrow> string" where
  "joinWith sep [] = []"
| "joinWith sep [s] = s"
| "joinWith sep (s # t # ss) = s @ sep @ joinWith sep (t # ss)"

fun normalizeSegments :: "bool \<Rightarrow> string list \<Rightarrow> string list \<Rightarrow> string list" where
  \<comment> \<open>The segment walk of \<^verbatim>\<open>normalizeString\<close>: empty and \<^verbatim>\<open>.\<close> segments are dropped, a
      \<^verbatim>\<open>..\<close> removes the segment before it unless there is none or it is \<^verbatim>\<open>..\<close> itself, in
      which case it is kept only when \<open>allowAboveRoot\<close> holds.\<close>
  "normalizeSegments allowAboveRoot res [] = res"
| "normalizeSegments allowAboveRoot res (s # ss) =
     (if s = [] \<or> s = ''.'' then normalizeSegments allowAboveRoot res ss
      else if s = ''..'' then
        (if res \<noteq> [] \<and> last res \<noteq> ''..'' then normalizeSegments allowAboveRoot (butlast res) ss
         else if allowAboveRoot then normalizeSegments allowAboveRoot (res @ [''..'']) ss
         else normalizeSegments allowAboveRoot res ss)
      else normalizeSegments allowAboveRoot (res @ [s]) ss)"

definition path_normalize :: "string \<Rightarrow> string" where
  \<comment> \<open>\<^verbatim>\<open>path.normalize\<close>\<close>
  "path_normalize p =
     (if p = [] then ''.''
      else
        let isAbsolute = (hd p = CHR ''/'');
            trailingSeparator = (last p = CHR ''/'');
            body = joinWith ''/'' (normalizeSegments (\<not> isAbsolute) [] (splitOn CHR ''/'' p))
        in if body = [] then (if isAbsolute then ''/'' else if trailingSeparator then ''./'' else ''.'')
           else (if isAbsolute then ''/'' else []) @ body @ (if trailingSeparator then ''/'' else []))"

definition path_join :: "string \<Rightarrow> string \<Rightarrow> string" where
  \<comment> \<open>\<^verbatim>\<open>path.join(a, b)\<close>: the non-empty arguments joined by \<^verbatim>\<open>/\<close>, then normalized.\<close>
  "path_join a b =
     (if a = [] \<and> b = [] then ''.''
      else if a = [] then path_normalize b
      else if b = [] then path_normalize a
      else path_normalize (a @ ''/'' @ b))"

definition path_dirname :: "string \<Rightarrow> string" where
  \<comment> \<open>\<^verbatim>\<open>path.dirname\<close>: scanning from the end down to index 1, trailing separators are
      skipped, then the last component; the separator that stops the scan is the cut.\<close>
  "path_dirname p =
     (if p = [] then ''.''
      else
        let hasRoot = (hd p = CHR ''/'');
            rest = dropWhile (\<lambda>c. c \<noteq> CHR ''/'') (dropWhile (\<lambda>c. c = CHR ''/'') (rev (tl p)))
        in if rest = [] then (if hasRoot then ''/'' else ''.'')
           else if hasRoot \<and> length rest = 1 then ''//''
           else take (length rest) p)"

definition path_basename :: "string \<Rightarrow> string" where
  \<comment> \<open>\<^verbatim>\<open>path.basename(p)\<close>: the last component, trailing separators ignored.\<close>
  "path_basename p =
     rev (takeWhile (\<lambda>c. c \<noteq> CHR ''/'') (dropWhile (\<lambda>c. c = CHR ''/'') (rev p)))"

definition path_basename_ext :: "string \<Rightarrow> string \<Rightarrow> string" where
  \<comment> \<open>\<^verbatim>\<open>path.basename(p, ext)\<close>: the last component without \<open>ext\<close> when it ends with \<open>ext\<close>
      and is longer than it. When the whole of \<open>p\<close> is \<open>ext\<close> the result is empty; when the
      component runs out while \<open>ext\<close> still matches, the slice runs to the end of \<open>p\<close>.\<close>
  "path_basename_ext p ext =
     (if ext \<noteq> [] \<and> length ext \<le> length p then
        if ext = p then []
        else
          let comp = path_basename p
          in if endsWith comp ext \<and> comp \<noteq> ext then take (length comp - length ext) comp
             else if endsWith ext comp \<and> comp \<noteq> ext
               then comp @ takeWhile (\<lambda>c. c = CHR ''/'') (rev p)
             else comp
      else path_basename p)"

subsection \<open>The file system\<close>

text \<open>
  The store is a finite association from path text to nodes, in listing order. A path names
  an entry by its text (links and alternative spellings of one location are not modelled);
  the entries directly inside a directory \<open>d\<close> are those whose \<^const>\<open>path_dirname\<close> is
  \<open>d\<close>. A call fails for the reasons listed in its definition and for no other (no
  permissions, no full disk), and a failed call leaves the store as it was. A file is read
  back as the text that was written.
\<close>

datatype node = File string | Directory

type_synonym filesystem = "(string \<times> node) list"

datatype errno = ENOENT | ENOTDIR | EISDIR | ENOTEMPTY | EINVAL

definition existsSync :: "filesystem \<Rightarrow> string \<Rightarrow> bool" where
  "existsSync fs p = (map_of fs p \<noteq> None)"

definition isDirectory :: "filesystem \<Rightarrow> string \<Rightarrow> bool" where
  \<comment> \<open>\<^verbatim>\<open>fs.statSync(p).isDirectory()\<close> for an existing \<open>p\<close>\<close>
  "isDirectory fs p = (map_of fs p = Some Directory)"

definition readFile :: "filesystem \<Rightarrow> string \<Rightarrow> errno + string" where
  "readFile fs p =
     (case map_of fs p of
        None \<Rightarrow> Inl ENOENT
      | Some Directory \<Rightarrow> Inl EISDIR
      | Some (File content) \<Rightarrow> Inr content)"

definition readdir :: "filesystem \<Rightarrow> string \<Rightarrow> errno + string list" where
  "readdir fs p =
     (case map_of fs p of
        None \<Rightarrow> Inl ENOENT
      | Some (File content) \<Rightarrow> Inl ENOTDIR
      | Some Directory \<Rightarrow>
          Inr (map (\<lambda>(k, n). path_basename k)
                 (filter (\<lambda>(k, n). path_dirname k = p \<and> k \<noteq> p) fs)))"

definition parentError :: "filesystem \<Rightarrow> string \<Rightarrow> errno option" where
  \<comment> \<open>An entry can only be created inside an existing directory.\<close>
  "parentError fs p =
     (if \<not> existsSync fs (path_dirname p) then Some ENOENT
      else if \<not> isDirectory fs (path_dirname p) then Some ENOTDIR
      else None)"

definition writeFile :: "filesystem \<Rightarrow> string \<Rightarrow> string \<Rightarrow> errno + filesystem" where
  \<comment> \<open>Creates the file or replaces its content.\<close>
  "writeFile fs p content =
     (case parentError fs p of
        Some e \<Rightarrow> Inl e
      | None \<Rightarrow>
          (if isDirectory fs p then Inl EISDIR
           else Inr (AList.update p (File content) fs)))"

definition isUnder :: "string \<Rightarrow> string \<Rightarrow> bool" where
  \<comment> \<open>\<open>k\<close> lies below the directory \<open>d\<close>.\<close>
  "isUnder d k = (length d < length k \<and> take (length d + 1) k = d @ ''/'')"

definition moveTree :: "string \<Rightarrow> string \<Rightarrow> filesystem \<Rightarrow> filesystem" where
  "moveTree oldPath newPath fs =
     map (\<lambda>(k, n).
            (if k = oldPath then newPath
             else if isUnder oldPath k then newPath @ drop (length oldPath) k
             else k, n)) fs"

definition rename :: "filesystem \<Rightarrow> string \<Rightarrow> string \<Rightarrow> errno + filesystem" where
  \<comment> \<open>\<^verbatim>\<open>fs.rename\<close>: an existing file at the new path is replaced.\<close>
  "rename fs oldPath newPath =
     (case map_of fs oldPath of
        None \<Rightarrow> Inl ENOENT
      | Some n \<Rightarrow>
          (case parentError fs newPath of
             Some e \<Rightarrow> Inl e
           | None \<Rightarrow>
               if oldPath = newPath then Inr fs
               else
                 (case n of
                    File content \<Rightarrow>
                      if isDirectory fs newPath then Inl EISDIR
                      else Inr (AList.update newPath (File content) (AList.delete oldPath fs))
                  | Directory \<Rightarrow>
                      if isUnder oldPath newPath then Inl EINVAL
                      else
                        (case map_of fs newPath of
                           None \<Rightarrow> Inr (moveTree oldPath newPath fs)
                         | Some (File content) \<Rightarrow> Inl ENOTDIR
                         | Some Directory \<Rightarrow>
                             if \<exists>k \<in> set (map fst fs). isUnder newPath k then Inl ENOTEMPTY
                             else Inr (moveTree oldPath newPath (AList.delete newPath fs))))))"

section \<open>The repository\<close>

text \<open>
  The source holds the class \<^verbatim>\<open>SolutionExplorerFileSystemRepository\<close> in three variants:
  the first and the second text of \<^verbatim>\<open>src/SolutionExplorerFileSystemRepository.ts\<close>
  (suffixes \<open>_v1\<close> and \<open>_v2\<close> below) and \<^verbatim>\<open>unnamed/part_000\<close> (suffix \<open>_v3\<close>). A
  function that reads the same in all variants that have it carries no suffix.
\<close>

datatype error =
    NotFoundError
  | BadRequestError
  | InternalServerError errno  \<comment> \<open>the caught failure is kept as \<^verbatim>\<open>additionalInformation\<close>\<close>
  | FsError errno              \<comment> \<open>a failure of the file system passed on as it is\<close>
  | TypeError                  \<comment> \<open>\<^verbatim>\<open>path.join\<close> or \<^verbatim>\<open>readdir\<close> given \<^verbatim>\<open>undefined\<close>\<close>

record diagram =
  name :: string
  uri :: string
  xml :: string
  id_field :: "string option"  \<comment> \<open>the optional \<^verbatim>\<open>id\<close>\<close>

record solution =
  diagrams :: "diagram list"

record 'i repository =
  trashFolderLocation :: string
  basePath :: "string option"  \<comment> \<open>\<^verbatim>\<open>undefined\<close> until \<^verbatim>\<open>openPath\<close> succeeds\<close>
  identity :: 'i

definition BPMN_FILE_SUFFIX :: string where
  "BPMN_FILE_SUFFIX = ''.bpmn''"

definition checkForDirectory :: "filesystem \<Rightarrow> string \<Rightarrow> error + unit" where
  "checkForDirectory fs directoryPath =
     (if \<not> existsSync fs directoryPath then Inl NotFoundError
      else if \<not> isDirectory fs directoryPath then Inl BadRequestError
      else Inr ())"

definition checkWriteablity :: "filesystem \<Rightarrow> string \<Rightarrow> error + unit" where
  "checkWriteablity fs filePath = checkForDirectory fs (path_dirname filePath)"

definition openPath ::
  "'i repository \<Rightarrow> filesystem \<Rightarrow> string \<Rightarrow> 'i \<Rightarrow> (error + unit) \<times> 'i repository" where
  "openPath repo fs pathspec ident =
     (case checkForDirectory fs pathspec of
        Inl e \<Rightarrow> (Inl e, repo)
      | Inr u \<Rightarrow> (Inr (), repo\<lparr>basePath := Some pathspec, identity := ident\<rparr>))"

subsection \<open>Reading diagrams\<close>

text \<open>
  \<^verbatim>\<open>Promise.all\<close> over reads: the list of results when every read succeeds, a failure
  otherwise. When several reads fail, the one earliest in the list is reported.
\<close>

fun promiseAll :: "(error + 'a) list \<Rightarrow> error + 'a list" where
  "promiseAll [] = Inr []"
| "promiseAll (r # rs) =
     (case r of
        Inl e \<Rightarrow> Inl e
      | Inr v \<Rightarrow> (case promiseAll rs of Inl e \<Rightarrow> Inl e | Inr vs \<Rightarrow> Inr (v # vs)))"

definition readDiagram_v1 :: "filesystem \<Rightarrow> string \<Rightarrow> string \<Rightarrow> error + diagram" where
  \<comment> \<open>The body of the \<^verbatim>\<open>map\<close> callback of \<^verbatim>\<open>getDiagrams\<close> (first and second variant).\<close>
  "readDiagram_v1 fs root file =
     (let fullPathToFile = path_join root file;
          fileNameWithoutBpmnSuffix = path_basename_ext file BPMN_FILE_SUFFIX
      in case readFile fs fullPathToFile of
           Inl e \<Rightarrow> Inl (FsError e)
         | Inr content \<Rightarrow>
             Inr \<lparr>name = fileNameWithoutBpmnSuffix, uri = fullPathToFile, xml = content,
                  id_field = None\<rparr>)"

definition readDiagram_v3 :: "filesystem \<Rightarrow> string \<Rightarrow> string \<Rightarrow> error + diagram" where
  \<comment> \<open>The same callback in \<^verbatim>\<open>part_000\<close>, which cuts the suffix with \<^verbatim>\<open>substr\<close>.\<close>
  "readDiagram_v3 fs root file =
     (let fullPathToFile = path_join root file;
          fileNameWithoutBpmnSuffix = take (length file - length BPMN_FILE_SUFFIX) file
      in case readFile fs fullPathToFile of
           Inl e \<Rightarrow> Inl (FsError e)
         | Inr content \<Rightarrow>
             Inr \<lparr>name = fileNameWithoutBpmnSuffix, uri = fullPathToFile, xml = content,
                  id_field = None\<rparr>)"

definition getDiagrams_v1 :: "'i repository \<Rightarrow> filesystem \<Rightarrow> error + diagram list" where
  "getDiagrams_v1 repo fs =
     (case basePath repo of
        None \<Rightarrow> Inl TypeError
      | Some root \<Rightarrow>
          (case readdir fs root of
             Inl e \<Rightarrow> Inl (FsError e)
           | Inr filesInDirectory \<Rightarrow>
               let bpmnFiles = filter (\<lambda>file. endsWith file BPMN_FILE_SUFFIX) filesInDirectory
               in promiseAll (map (readDiagram_v1 fs root) bpmnFiles)))"

definition getDiagrams_v3 :: "'i repository \<Rightarrow> filesystem \<Rightarrow> error + diagram list" where
  "getDiagrams_v3 repo fs =
     (case basePath repo of
        None \<Rightarrow> Inl TypeError
      | Some root \<Rightarrow>
          (case readdir fs root of
             Inl e \<Rightarrow> Inl (FsError e)
           | Inr filesInDirectory \<Rightarrow>
               let bpmnFiles = filter (\<lambda>file. endsWith file BPMN_FILE_SUFFIX) filesInDirectory
               in promiseAll (map (readDiagram_v3 fs root) bpmnFiles)))"

definition getDiagramByName :: "'i repository \<Rightarrow> filesystem \<Rightarrow> string \<Rightarrow> error + diagram" where
  "getDiagramByName repo fs diagramName =
     (case basePath repo of
        None \<Rightarrow> Inl TypeError
      | Some root \<Rightarrow>
          (let fullPathToFile = path_join root (diagramName @ ''.bpmn'')
           in case readFile fs fullPathToFile of
                Inl e \<Rightarrow> Inl (FsError e)
              | Inr content \<Rightarrow>
                  Inr \<lparr>name = diagramName, uri = fullPathToFile, xml = content,
                       id_field = Some fullPathToFile\<rparr>))"

subsection \<open>Saving a diagram\<close>

definition writeDiagram :: "filesystem \<Rightarrow> string \<Rightarrow> string \<Rightarrow> (error + unit) \<times> filesystem" where
  \<comment> \<open>The \<^verbatim>\<open>try\<close> block of \<^verbatim>\<open>saveDiagram\<close>: a failed write is wrapped.\<close>
  "writeDiagram fs pathToWriteDiagram content =
     (case writeFile fs pathToWriteDiagram content of
        Inl e \<Rightarrow> (Inl (InternalServerError e), fs)
      | Inr fs' \<Rightarrow> (Inr (), fs'))"

definition saveDiagram_v1 ::
  "'i repository \<Rightarrow> filesystem \<Rightarrow> diagram \<Rightarrow> string option \<Rightarrow> (error + unit) \<times> filesystem" where
  "saveDiagram_v1 repo fs diagramToSave newPathSpec =
     (let pathToWriteDiagram =
            (case newPathSpec of Some p \<Rightarrow> p | None \<Rightarrow> uri diagramToSave)
      in case checkWriteablity fs pathToWriteDiagram of
           Inl e \<Rightarrow> (Inl e, fs)
         | Inr u \<Rightarrow> writeDiagram fs pathToWriteDiagram (xml diagramToSave))"

definition saveDiagram_v2 ::
  "'i repository \<Rightarrow> filesystem \<Rightarrow> diagram \<Rightarrow> string option \<Rightarrow> (error + unit) \<times> filesystem" where
  \<comment> \<open>Second variant; \<^verbatim>\<open>part_000\<close> has the same text.\<close>
  "saveDiagram_v2 repo fs diagramToSave newPathSpec =
     (case newPathSpec of
        Some p \<Rightarrow>
          (case checkWriteablity fs p of
             Inl e \<Rightarrow> (Inl e, fs)
           | Inr u \<Rightarrow> writeDiagram fs p (xml diagramToSave))
      | None \<Rightarrow>
          (case basePath repo of
             None \<Rightarrow> (Inl TypeError, fs)
           | Some root \<Rightarrow>
               let expectedUriForDiagram = path_join root (name diagramToSave @ ''.bpmn'');
                   uriOfDiagramWasChanged = (expectedUriForDiagram \<noteq> uri diagramToSave)
               in if uriOfDiagramWasChanged then (Inl BadRequestError, fs)
                  else
                    (case checkWriteablity fs (uri diagramToSave) of
                       Inl e \<Rightarrow> (Inl e, fs)
                     | Inr u \<Rightarrow> writeDiagram fs (uri diagramToSave) (xml diagramToSave))))"

subsection \<open>Saving a solution\<close>

text \<open>
  \<^verbatim>\<open>saveSolution\<close> calls \<^verbatim>\<open>saveDiagram\<close> for every diagram inside \<^verbatim>\<open>map\<close> and only
  then awaits \<^verbatim>\<open>Promise.all\<close>. A call of \<^verbatim>\<open>saveDiagram\<close> runs up to its first pending
  \<^verbatim>\<open>await\<close> before it returns its promise: a \<^verbatim>\<open>throw\<close> ahead of the directory check has
  rejected the promise by then, and the directory check, which uses the synchronous calls
  of the file system, has run against the store as it is at the call. The writes are issued
  afterwards and are taken to land in the order of the sequence. A \<open>saveState\<close> is where
  a save stands when its call returns.

  The result is the one \<^verbatim>\<open>Promise.all\<close> settles with, and the store is the one left when
  every write has landed: a rejection stops no write. A promise rejected at the call
  settles first, one rejected by the directory check next, a failed write last; within
  each group the model reports the earliest in the sequence.
\<close>

datatype saveState = Thrown error | CheckFailed error | Writing string string

definition saveDiagram_v1_start ::
  "'i repository \<Rightarrow> filesystem \<Rightarrow> diagram \<Rightarrow> string option \<Rightarrow> saveState" where
  "saveDiagram_v1_start repo fs diagramToSave newPathSpec =
     (let pathToWriteDiagram =
            (case newPathSpec of Some p \<Rightarrow> p | None \<Rightarrow> uri diagramToSave)
      in case checkWriteablity fs pathToWriteDiagram of
           Inl e \<Rightarrow> CheckFailed e
         | Inr u \<Rightarrow> Writing pathToWriteDiagram (xml diagramToSave))"

definition saveDiagram_v2_start ::
  "'i repository \<Rightarrow> filesystem \<Rightarrow> diagram \<Rightarrow> string option \<Rightarrow> saveState" where
  "saveDiagram_v2_start repo fs diagramToSave newPathSpec =
     (case newPathSpec of
        Some p \<Rightarrow>
          (case checkWriteablity fs p of
             Inl e \<Rightarrow> CheckFailed e
           | Inr u \<Rightarrow> Writing p (xml diagramToSave))
      | None \<Rightarrow>
          (case basePath repo of
             None \<Rightarrow> Thrown TypeError
           | Some root \<Rightarrow>
               let expectedUriForDiagram = path_join root (name diagramToSave @ ''.bpmn'');
                   uriOfDiagramWasChanged = (expectedUriForDiagram \<noteq> uri diagramToSave)
               in if uriOfDiagramWasChanged then Thrown BadRequestError
                  else
                    (case checkWriteablity fs (uri diagramToSave) of
                       Inl e \<Rightarrow> CheckFailed e
                     | Inr u \<Rightarrow> Writing (uri diagramToSave) (xml diagramToSave))))"

fun finishSave :: "filesystem \<Rightarrow> saveState \<Rightarrow> (error + unit) \<times> filesystem" where
  "finishSave fs (Thrown e) = (Inl e, fs)"
| "finishSave fs (CheckFailed e) = (Inl e, fs)"
| "finishSave fs (Writing p content) = writeDiagram fs p content"

fun finishAll :: "filesystem \<Rightarrow> saveState list \<Rightarrow> (error + unit) list \<times> filesystem" where
  "finishAll fs [] = ([], fs)"
| "finishAll fs (s # ss) =
     (case finishSave fs s of
        (r, fs1) \<Rightarrow> (case finishAll fs1 ss of (rs, fs2) \<Rightarrow> (r # rs, fs2)))"

fun thrownErrors :: "saveState list \<Rightarrow> error list" where
  "thrownErrors [] = []"
| "thrownErrors (Thrown e # ss) = e # thrownErrors ss"
| "thrownErrors (s # ss) = thrownErrors ss"

fun checkErrors :: "saveState list \<Rightarrow> error list" where
  "checkErrors [] = []"
| "checkErrors (CheckFailed e # ss) = e # checkErrors ss"
| "checkErrors (s # ss) = checkErrors ss"

fun writeErrors :: "(error + unit) list \<Rightarrow> error list" where
  "writeErrors [] = []"
| "writeErrors (Inl e # rs) = e # writeErrors rs"
| "writeErrors (Inr u # rs) = writeErrors rs"

definition promiseAll_saves :: "saveState list \<Rightarrow> (error + unit) list \<Rightarrow> error + unit" where
  "promiseAll_saves states results =
     (case thrownErrors states @ checkErrors states @ writeErrors results of
        [] \<Rightarrow> Inr ()
      | e # es \<Rightarrow> Inl e)"

definition saveSolution_with ::
  "('i repository \<Rightarrow> filesystem \<Rightarrow> diagram \<Rightarrow> string option \<Rightarrow> saveState) \<Rightarrow>
   'i repository \<Rightarrow> filesystem \<Rightarrow> solution \<Rightarrow> string option \<Rightarrow>
   (error + unit) \<times> filesystem \<times> 'i repository" where
  \<comment> \<open>The body of \<^verbatim>\<open>saveSolution\<close>, which reads the same in the three variants; \<open>start\<close> is
      the variant's \<^verbatim>\<open>saveDiagram\<close>.\<close>
  "saveSolution_with start repo fs sol pathToSolution =
     (case (case pathToSolution of
              Some p \<Rightarrow> openPath repo fs p (identity repo)
            | None \<Rightarrow> (Inr (), repo)) of
        (Inl e, repo') \<Rightarrow> (Inl e, fs, repo')
      | (Inr u, repo') \<Rightarrow>
          (let states = map (\<lambda>d. start repo' fs d None) (diagrams sol)
           in case finishAll fs states of
                (results, fs') \<Rightarrow> (promiseAll_saves states results, fs', repo')))"

definition saveSolution_v1 ::
  "'i repository \<Rightarrow> filesystem \<Rightarrow> solution \<Rightarrow> string option \<Rightarrow>
   (error + unit) \<times> filesystem \<times> 'i repository" where
  "saveSolution_v1 = saveSolution_with saveDiagram_v1_start"

definition saveSolution_v2 ::
  "'i repository \<Rightarrow> filesystem \<Rightarrow> solution \<Rightarrow> string option \<Rightarrow>
   (error + unit) \<times> filesystem \<times> 'i repository" where
  "saveSolution_v2 = saveSolution_with saveDiagram_v2_start"

subsection \<open>Deleting a diagram\<close>

text \<open>
  The loop counter \<^verbatim>\<open>attempt\<close> is a natural number: the program's number is exact far
  beyond any count of files a store can hold.
\<close>

function findUnusedFilename_loop :: "filesystem \<Rightarrow> string \<Rightarrow> string \<Rightarrow> nat \<Rightarrow> string" where
  \<comment> \<open>The \<^verbatim>\<open>while\<close> loop of \<^verbatim>\<open>_findUnusedFilename\<close> on \<^verbatim>\<open>currentName\<close> and \<^verbatim>\<open>attempt\<close>.\<close>
  "findUnusedFilename_loop fs desiredName currentName attempt =
     (if existsSync fs currentName
      then findUnusedFilename_loop fs desiredName
             (desiredName @ ''.'' @ string_of_nat attempt) (attempt + 1)
      else currentName)"
  by pat_completeness auto

definition findUnusedFilename :: "filesystem \<Rightarrow> string \<Rightarrow> string" where
  "findUnusedFilename fs desiredName = findUnusedFilename_loop fs desiredName desiredName 1"

definition deleteDiagram_v1 ::
  "'i repository \<Rightarrow> filesystem \<Rightarrow> diagram \<Rightarrow> (error + unit) \<times> filesystem" where
  "deleteDiagram_v1 repo fs d =
     (case checkForDirectory fs (trashFolderLocation repo) of
        Inl e \<Rightarrow> (Inl BadRequestError, fs)
      | Inr u \<Rightarrow>
          (let desiredName = path_join (trashFolderLocation repo) (name d @ BPMN_FILE_SUFFIX);
               targetFile = findUnusedFilename fs desiredName
           in case rename fs (uri d) targetFile of
                Inl e \<Rightarrow> (Inl (FsError e), fs)
              | Inr fs' \<Rightarrow> (Inr (), fs')))"

function deleteDiagram_v2_loop ::
  "filesystem \<Rightarrow> string \<Rightarrow> bool \<Rightarrow> string \<Rightarrow> nat \<Rightarrow> string" where
  \<comment> \<open>The \<^verbatim>\<open>while\<close> loop of the second variant's \<^verbatim>\<open>deleteDiagram\<close> on
      \<^verbatim>\<open>fileAlreadyExists\<close>, \<^verbatim>\<open>targetFile\<close> and \<^verbatim>\<open>attemptCount\<close>.\<close>
  "deleteDiagram_v2_loop fs orginalTargetFile fileAlreadyExists targetFile attemptCount =
     (if fileAlreadyExists
      then deleteDiagram_v2_loop fs orginalTargetFile (existsSync fs targetFile)
             (orginalTargetFile @ ''.'' @ string_of_nat attemptCount) (attemptCount + 1)
      else targetFile)"
  by pat_completeness auto

definition deleteDiagram_v2 ::
  "'i repository \<Rightarrow> filesystem \<Rightarrow> diagram \<Rightarrow> (error + unit) \<times> filesystem" where
  "deleteDiagram_v2 repo fs d =
     (case checkForDirectory fs (trashFolderLocation repo) of
        Inl e \<Rightarrow> (Inl BadRequestError, fs)
      | Inr u \<Rightarrow>
          (let orginalTargetFile =
                 path_join (trashFolderLocation repo) (name d @ BPMN_FILE_SUFFIX);
               targetFile =
                 deleteDiagram_v2_loop fs orginalTargetFile
                   (existsSync fs orginalTargetFile) orginalTargetFile 1
           in case rename fs (uri d) targetFile of
                Inl e \<Rightarrow> (Inl (FsError e), fs)
              | Inr fs' \<Rightarrow> (Inr (), fs')))"

subsection \<open>Renaming a diagram\<close>

definition renameDiagram_v1 ::
  "(string \<Rightarrow> string) \<Rightarrow> 'i repository \<Rightarrow> filesystem \<Rightarrow> diagram \<Rightarrow> string \<Rightarrow>
   (error + diagram) \<times> filesystem" where
  \<comment> \<open>The first argument is the language's \<^verbatim>\<open>toLowerCase\<close>.\<close>
  "renameDiagram_v1 toLowerCase repo fs d newName =
     (let nameWithSuffix = newName @ BPMN_FILE_SUFFIX
      in case basePath repo of
           None \<Rightarrow> (Inl TypeError, fs)
         | Some root \<Rightarrow>
             (let newDiagramUri = path_join root nameWithSuffix
              in case checkWriteablity fs newDiagramUri of
                   Inl e \<Rightarrow> (Inl e, fs)
                 | Inr u \<Rightarrow>
                     (let diagramNameChanged = (toLowerCase newName \<noteq> toLowerCase (name d));
                          fileAlreadyExists = existsSync fs newDiagramUri
                      in if fileAlreadyExists \<and> diagramNameChanged then (Inl BadRequestError, fs)
                         else
                           (case rename fs (uri d) newDiagramUri of
                              Inl e \<Rightarrow> (Inl (FsError e), fs)
                            | Inr fs' \<Rightarrow> (getDiagramByName repo fs' newName, fs')))))"

definition renameDiagram_v2 ::
  "'i repository \<Rightarrow> filesystem \<Rightarrow> diagram \<Rightarrow> string \<Rightarrow> (error + diagram) \<times> filesystem" where
  "renameDiagram_v2 repo fs d newName =
     (let nameWithSuffix = newName @ BPMN_FILE_SUFFIX
      in case basePath repo of
           None \<Rightarrow> (Inl TypeError, fs)
         | Some root \<Rightarrow>
             (let newDiagramUri = path_join root nameWithSuffix
              in case checkWriteablity fs newDiagramUri of
                   Inl e \<Rightarrow> (Inl e, fs)
                 | Inr u \<Rightarrow>
                     (let fileAlreadyExists = existsSync fs newDiagramUri
                      in if fileAlreadyExists then (Inl BadRequestError, fs)
                         else
                           (case rename fs (uri d) newDiagramUri of
                              Inl e \<Rightarrow> (Inl (FsError e), fs)
                            | Inr fs' \<Rightarrow> (getDiagramByName repo fs' newName, fs')))))"

definition candidate :: "string \<Rightarrow> nat \<Rightarrow> string" where
  \<comment> \<open>The \<open>k\<close>-th name the search tries after the desired one.\<close>
  "candidate desiredName k = desiredName @ ''.'' @ string_of_nat k"

section \<open>Notions used to state the properties\<close>

definition spec_diagramOfEntry :: "filesystem \<Rightarrow> string \<Rightarrow> string \<Rightarrow> diagram" where
  \<comment> \<open>The diagram the specification describes for a directory entry: the name is the
      filename with the \<^verbatim>\<open>.bpmn\<close> suffix stripped, the uri is \<open>join(root, filename)\<close>,
      the xml is the text content of that file. To be compared with what
      \<^const>\<open>getDiagrams_v1\<close> and \<^const>\<open>getDiagrams_v3\<close> return.\<close>
  "spec_diagramOfEntry fs root filename =
     \<lparr>name = take (length filename - length ''.bpmn'') filename,
      uri = path_join root filename,
      xml = (case map_of fs (path_join root filename) of
               Some (File content) \<Rightarrow> content
             | _ \<Rightarrow> []),
      id_field = None\<rparr>"

definition lowestUnused :: "filesystem \<Rightarrow> string \<Rightarrow> nat \<Rightarrow> nat" where
  \<comment> \<open>The lowest number from \<open>a\<close> on whose candidate name is not in the store.\<close>
  "lowestUnused fs desiredName a =
     (LEAST k. a \<le> k \<and> \<not> existsSync fs (candidate desiredName k))"

definition writesOnlyOwnUri :: "(diagram \<Rightarrow> saveState) \<Rightarrow> bool" where
  \<comment> \<open>A started save that is about to write, writes the diagram's xml to its uri.\<close>
  "writesOnlyOwnUri start = (\<forall>d p c. start d = Writing p c \<longrightarrow> p = uri d \<and> c = xml d)"

section \<open>Example stores and diagrams\<close>

definition example_repo :: "unit repository" where
  "example_repo = \<lparr>trashFolderLocation = ''/trash'', basePath = Some ''/sol'', identity = ()\<rparr>"

definition example_fs :: filesystem where
  "example_fs =
     [(''/'', Directory), (''/sol'', Directory), (''/trash'', Directory),
      (''/sol/a.bpmn'', File ''<a/>''), (''/sol/b.bpmn'', File ''<b/>''),
      (''/sol/c.txt'', File ''text'')]"

definition trash_fs :: filesystem where
  "trash_fs =
     [(''/'', Directory), (''/sol'', Directory), (''/trash'', Directory),
      (''/sol/x.bpmn'', File ''<new/>''), (''/trash/x.bpmn'', File ''<old/>'')]"

definition diagram_x :: diagram where
  "diagram_x = \<lparr>name = ''x'', uri = ''/sol/x.bpmn'', xml = ''<new/>'', id_field = None\<rparr>"

definition notrash_repo :: "unit repository" where
  "notrash_repo = \<lparr>trashFolderLocation = ''/missing'', basePath = Some ''/sol'', identity = ()\<rparr>"

definition filetrash_repo :: "unit repository" where
  "filetrash_repo =
     \<lparr>trashFolderLocation = ''/sol/c.txt'', basePath = Some ''/sol'', identity = ()\<rparr>"

definition diagram_a :: diagram where
  "diagram_a = \<lparr>name = ''a'', uri = ''/sol/a.bpmn'', xml = ''<a2/>'', id_field = None\<rparr>"

definition moved_diagram :: diagram where
  "moved_diagram =
     \<lparr>name = ''a'', uri = ''/trash/a.bpmn'', xml = ''<moved/>'', id_field = None\<rparr>"

definition example_listing :: "diagram list" where
  "example_listing =
     [\<lparr>name = ''a'', uri = ''/sol/a.bpmn'', xml = ''<a/>'', id_field = None\<rparr>,
      \<lparr>name = ''b'', uri = ''/sol/b.bpmn'', xml = ''<b/>'', id_field = None\<rparr>]"

definition diagram_a_read :: diagram where
  "diagram_a_read =
     \<lparr>name = ''a'', uri = ''/sol/a.bpmn'', xml = ''<a/>'', id_field = Some ''/sol/a.bpmn''\<rparr>"

definition diagram_y :: diagram where
  "diagram_y =
     \<lparr>name = ''y'', uri = ''/sol/y.bpmn'', xml = ''<a/>'', id_field = Some ''/sol/y.bpmn''\<rparr>"

definition renamed_fs :: filesystem where
  "renamed_fs =
     [(''/'', Directory), (''/sol'', Directory), (''/trash'', Directory),
      (''/sol/b.bpmn'', File ''<b/>''), (''/sol/c.txt'', File ''text''),
      (''/sol/y.bpmn'', File ''<a/>'')]"

definition case_fs :: filesystem where
  "case_fs =
     [(''/'', Directory), (''/sol'', Directory),
      (''/sol/A.bpmn'', File ''<upper/>''), (''/sol/a.bpmn'', File ''<lower/>'')]"

definition diagram_A :: diagram where
  "diagram_A = \<lparr>name = ''A'', uri = ''/sol/A.bpmn'', xml = ''<upper/>'', id_field = None\<rparr>"

definition broken_fs :: filesystem where
  "broken_fs =
     [(''/'', Directory), (''/sol'', Directory), (''/sol/a.bpmn'', File ''<a/>''),
      (''/sol/d.bpmn'', Directory)]"

definition trash_fs2 :: filesystem where
  "trash_fs2 =
     [(''/'', Directory), (''/sol'', Directory), (''/trash'', Directory),
      (''/sol/x.bpmn'', File ''<new/>''), (''/trash/x.bpmn'', File ''<old/>''),
      (''/trash/x.bpmn.2'', File ''<older/>'')]"

definition closed_repo :: "unit repository" where
  "closed_repo = \<lparr>trashFolderLocation = ''/trash'', basePath = None, identity = ()\<rparr>"

definition diagram_q :: diagram where
  "diagram_q = \<lparr>name = ''q'', uri = ''/nodir/q.bpmn'', xml = ''<q/>'', id_field = None\<rparr>"

definition diagram_z :: diagram where
  "diagram_z = \<lparr>name = ''z'', uri = ''/sol/z.bpmn'', xml = ''<z/>'', id_field = None\<rparr>"

definition example_solution :: solution where
  "example_solution = \<lparr>diagrams = [diagram_a, diagram_q, diagram_z]\<rparr>"

section \<open>The name search terminates\<close>

text \<open>
  Distinct numbers give distinct candidate names, and the store is finite, so some
  candidate from any number onwards is unused. Both loops therefore end.
\<close>

lemma string_of_nat_nonempty: "string_of_nat n \<noteq> []" "[] \<noteq> string_of_nat n"
  by (subst string_of_nat.simps, simp)+

lemma digit_char_inj: "a < 10 \<Longrightarrow> b < 10 \<Longrightarrow> (char_of (48 + a) :: char) = char_of (48 + b) \<Longrightarrow> a = (b::nat)"
proof -
  assume a: "a < 10" and b: "b < 10" and e: "(char_of (48 + a) :: char) = char_of (48 + b)"
  have "of_char (char_of (48 + a) :: char) = (of_char (char_of (48 + b) :: char) :: nat)"
    using e by simp
  then have "(48 + a) mod 256 = (48 + b) mod 256"
    by (simp only: of_char_of)
  then show "a = b" using a b by simp
qed

lemma string_of_nat_inj: "string_of_nat n = string_of_nat m \<Longrightarrow> n = m"
proof (induction n arbitrary: m rule: string_of_nat.induct)
  case (1 n)
  show ?case
  proof (cases "n < 10")
    case small: True
    show ?thesis
    proof (cases "m < 10")
      case True
      with small "1.prems" show ?thesis
        by (simp add: string_of_nat.simps [of n] string_of_nat.simps [of m] digit_char_inj)
    next
      case False
      with small "1.prems" show ?thesis
        by (simp add: string_of_nat.simps [of n] string_of_nat.simps [of m] string_of_nat_nonempty)
    qed
  next
    case big: False
    show ?thesis
    proof (cases "m < 10")
      case True
      with big "1.prems" show ?thesis
        by (simp add: string_of_nat.simps [of n] string_of_nat.simps [of m] string_of_nat_nonempty)
    next
      case False
      with big "1.prems" have e: "string_of_nat (n div 10) = string_of_nat (m div 10)"
        and d: "(char_of (48 + n mod 10) :: char) = char_of (48 + m mod 10)"
        by (simp_all add: string_of_nat.simps [of n] string_of_nat.simps [of m])
      from "1.IH" [OF big e] have "n div 10 = m div 10" .
      moreover from d have "n mod 10 = m mod 10" by (intro digit_char_inj) simp_all
      ultimately show ?thesis by (metis div_mult_mod_eq)
    qed
  qed
qed

lemma candidate_inj: "candidate d j = candidate d k \<Longrightarrow> j = k"
  by (simp add: candidate_def string_of_nat_inj)

lemma unused_candidate_exists: "\<exists>k\<ge>a. \<not> existsSync fs (candidate d k)"
proof (rule ccontr)
  assume "\<not> ?thesis"
  then have "candidate d ` {a..} \<subseteq> dom (map_of fs)"
    by (auto simp: existsSync_def)
  then have "finite (candidate d ` {a..})"
    by (rule finite_subset) (rule finite_dom_map_of)
  moreover have "inj_on (candidate d) {a..}"
    by (rule inj_onI) (rule candidate_inj)
  ultimately have "finite {a..}" by (rule finite_imageD)
  then show False by (simp add: infinite_Ici)
qed


lemma least_unused_step:
  assumes "existsSync fs (candidate d a)"
  shows "(LEAST k. a \<le> k \<and> \<not> existsSync fs (candidate d k)) =
         (LEAST k. Suc a \<le> k \<and> \<not> existsSync fs (candidate d k))"
    and "Suc a \<le> (LEAST k. Suc a \<le> k \<and> \<not> existsSync fs (candidate d k))"
proof -
  have "\<And>k. (a \<le> k \<and> \<not> existsSync fs (candidate d k)) = (Suc a \<le> k \<and> \<not> existsSync fs (candidate d k))"
    using assms by (metis Suc_leI le_neq_implies_less Suc_leD)
  then show "(LEAST k. a \<le> k \<and> \<not> existsSync fs (candidate d k)) =
         (LEAST k. Suc a \<le> k \<and> \<not> existsSync fs (candidate d k))" by simp
  from unused_candidate_exists [of "Suc a" fs d]
  show "Suc a \<le> (LEAST k. Suc a \<le> k \<and> \<not> existsSync fs (candidate d k))"
    by (metis (mono_tags, lifting) LeastI_ex)
qed

termination findUnusedFilename_loop
proof (relation "measure (\<lambda>(fs, desiredName, currentName, attempt).
          if existsSync fs currentName
          then 2 + ((LEAST k. attempt \<le> k \<and> \<not> existsSync fs (candidate desiredName k)) - attempt)
          else 0)")
  show "wf (measure (\<lambda>(fs, desiredName, currentName, attempt).
          if existsSync fs currentName
          then 2 + ((LEAST k. attempt \<le> k \<and> \<not> existsSync fs (candidate desiredName k)) - attempt)
          else 0))" by simp
next
  fix fs :: filesystem and desiredName currentName :: string and attempt :: nat
  assume "existsSync fs currentName"
  then show "((fs, desiredName, desiredName @ ''.'' @ string_of_nat attempt, attempt + 1),
              (fs, desiredName, currentName, attempt))
        \<in> measure (\<lambda>(fs, desiredName, currentName, attempt).
          if existsSync fs currentName
          then 2 + ((LEAST k. attempt \<le> k \<and> \<not> existsSync fs (candidate desiredName k)) - attempt)
          else 0)"
    using least_unused_step [of fs desiredName attempt]
    by (auto simp: candidate_def)
qed

termination deleteDiagram_v2_loop
proof (relation "measure (\<lambda>(fs, orig, fileAlreadyExists, targetFile, attempt).
          if \<not> fileAlreadyExists then 0
          else if \<not> existsSync fs targetFile then 1
          else 3 + ((LEAST k. attempt \<le> k \<and> \<not> existsSync fs (candidate orig k)) - attempt))")
  show "wf (measure (\<lambda>(fs, orig, fileAlreadyExists, targetFile, attempt).
          if \<not> fileAlreadyExists then 0
          else if \<not> existsSync fs targetFile then 1
          else 3 + ((LEAST k. attempt \<le> k \<and> \<not> existsSync fs (candidate orig k)) - attempt)))"
    by simp
next
  fix fs :: filesystem and orginalTargetFile targetFile :: string
    and fileAlreadyExists :: bool and attemptCount :: nat
  assume "fileAlreadyExists"
  then show "((fs, orginalTargetFile, existsSync fs targetFile,
               orginalTargetFile @ ''.'' @ string_of_nat attemptCount, attemptCount + 1),
              (fs, orginalTargetFile, fileAlreadyExists, targetFile, attemptCount))
        \<in> measure (\<lambda>(fs, orig, fileAlreadyExists, targetFile, attempt).
          if \<not> fileAlreadyExists then 0
          else if \<not> existsSync fs targetFile then 1
          else 3 + ((LEAST k. attempt \<le> k \<and> \<not> existsSync fs (candidate orig k)) - attempt))"
    using least_unused_step [of fs orginalTargetFile attemptCount]
    by (auto simp: candidate_def)
qed

declare findUnusedFilename_loop.simps [simp del]
declare deleteDiagram_v2_loop.simps [simp del]

section \<open>Opening a solution\<close>

lemma example_fs_lookups:
  "map_of example_fs ''/missing'' = None"
  "map_of example_fs ''/sol/c.txt'' = Some (File ''text'')"
  "map_of example_fs ''/sol'' = Some Directory"
  "map_of example_fs ''/trash'' = Some Directory"
  by (simp_all add: example_fs_def)

text \<open>
  C4. \<^verbatim>\<open>openPath(p, identity)\<close> fails with NotFound when \<open>p\<close> does not exist and with
  BadRequest when \<open>p\<close> exists but is not a directory; in both cases the repository keeps
  its root and its identity. Otherwise it succeeds and sets the root to \<open>p\<close> and the
  identity to the one given.
\<close>

theorem openPath_outcomes:
  "(\<not> existsSync fs p \<longrightarrow> openPath repo fs p ident = (Inl NotFoundError, repo)) \<and>
   (existsSync fs p \<and> \<not> isDirectory fs p \<longrightarrow>
      openPath repo fs p ident = (Inl BadRequestError, repo)) \<and>
   (existsSync fs p \<and> isDirectory fs p \<longrightarrow>
      openPath repo fs p ident = (Inr (), repo\<lparr>basePath := Some p, identity := ident\<rparr>))"
  by (simp add: openPath_def checkForDirectory_def)

theorem openPath_outcomes_witness:
  "\<not> existsSync example_fs ''/missing'' \<and>
   openPath example_repo example_fs ''/missing'' () = (Inl NotFoundError, example_repo) \<and>
   existsSync example_fs ''/sol/c.txt'' \<and> \<not> isDirectory example_fs ''/sol/c.txt'' \<and>
   openPath example_repo example_fs ''/sol/c.txt'' () = (Inl BadRequestError, example_repo) \<and>
   existsSync example_fs ''/trash'' \<and> isDirectory example_fs ''/trash'' \<and>
   openPath example_repo example_fs ''/trash'' () =
     (Inr (), example_repo\<lparr>basePath := Some ''/trash'', identity := ()\<rparr>)"
  using openPath_outcomes [of example_fs "''/missing''" example_repo "()"]
        openPath_outcomes [of example_fs "''/sol/c.txt''" example_repo "()"]
        openPath_outcomes [of example_fs "''/trash''" example_repo "()"]
  by (simp add: existsSync_def isDirectory_def example_fs_lookups)

section \<open>Facts about the file system and the checks\<close>

lemma checkForDirectory_cases:
  "checkForDirectory fs p =
     (if isDirectory fs p then Inr ()
      else if existsSync fs p then Inl BadRequestError else Inl NotFoundError)"
  by (auto simp: checkForDirectory_def existsSync_def isDirectory_def)

lemma writeFile_ok:
  "isDirectory fs (path_dirname p) \<Longrightarrow> \<not> isDirectory fs p \<Longrightarrow>
     writeFile fs p c = Inr (AList.update p (File c) fs)"
  by (simp add: writeFile_def parentError_def existsSync_def isDirectory_def)

lemma writeDiagram_ok:
  "isDirectory fs (path_dirname p) \<Longrightarrow> \<not> isDirectory fs p \<Longrightarrow>
     writeDiagram fs p c = (Inr (), AList.update p (File c) fs)"
  by (simp add: writeDiagram_def writeFile_ok)

lemma rename_file_ok:
  assumes "map_of fs old = Some (File c)" "isDirectory fs (path_dirname new)"
    "\<not> existsSync fs new"
  shows "rename fs old new = Inr (AList.update new (File c) (AList.delete old fs))"
  using assms
  by (auto simp: rename_def parentError_def existsSync_def isDirectory_def)

lemma promiseAll_Inr:
  "promiseAll rs = Inr vs \<Longrightarrow> rs = map Inr vs"
  by (induction rs arbitrary: vs) (auto split: sum.splits)

lemma promiseAll_map_Inr: "promiseAll (map Inr vs) = Inr vs"
  by (induction vs) auto

lemma promiseAll_Inl:
  "Inl e \<in> set rs \<Longrightarrow> \<exists>e'. promiseAll rs = Inl e'"
  by (induction rs) (auto split: sum.splits)

section \<open>Listing the diagrams\<close>

lemma path_basename_no_separator: "CHR ''/'' \<notin> set (path_basename k)"
  by (auto simp: path_basename_def dest: set_takeWhileD)

lemma path_basename_plain:
  assumes "CHR ''/'' \<notin> set f"
  shows "path_basename f = f"
proof -
  have "dropWhile (\<lambda>c. c = CHR ''/'') (rev f) = rev f"
    using assms by (cases "rev f") auto
  moreover have "takeWhile (\<lambda>c. c \<noteq> CHR ''/'') (rev f) = rev f"
    using assms by auto
  ultimately show ?thesis by (simp only: path_basename_def rev_rev_ident)
qed

lemma path_basename_ext_plain:
  assumes "CHR ''/'' \<notin> set f" and "endsWith f BPMN_FILE_SUFFIX"
  shows "path_basename_ext f BPMN_FILE_SUFFIX = take (length f - length BPMN_FILE_SUFFIX) f"
  using assms
  by (auto simp: path_basename_ext_def path_basename_plain endsWith_def BPMN_FILE_SUFFIX_def)

lemma readdir_plain_names:
  "readdir fs root = Inr files \<Longrightarrow> f \<in> set files \<Longrightarrow> CHR ''/'' \<notin> set f"
  by (auto simp: readdir_def path_basename_no_separator split: option.splits node.splits)

lemma readDiagram_v1_spec:
  assumes "CHR ''/'' \<notin> set f" "endsWith f BPMN_FILE_SUFFIX"
    "map_of fs (path_join root f) = Some (File c)"
  shows "readDiagram_v1 fs root f = Inr (spec_diagramOfEntry fs root f)"
  using assms path_basename_ext_plain [OF assms(1,2)]
  by (simp add: readDiagram_v1_def readFile_def spec_diagramOfEntry_def
      BPMN_FILE_SUFFIX_def Let_def)

lemma readDiagram_v3_spec:
  assumes "map_of fs (path_join root f) = Some (File c)"
  shows "readDiagram_v3 fs root f = Inr (spec_diagramOfEntry fs root f)"
  using assms
  by (simp add: readDiagram_v3_def readFile_def spec_diagramOfEntry_def
      BPMN_FILE_SUFFIX_def Let_def)

lemma readDiagram_v1_fails:
  "\<forall>c. map_of fs (path_join root f) \<noteq> Some (File c) \<Longrightarrow> \<exists>e. readDiagram_v1 fs root f = Inl e"
  by (auto simp: readDiagram_v1_def readFile_def Let_def split: option.splits node.splits)

lemma readDiagram_v3_fails:
  "\<forall>c. map_of fs (path_join root f) \<noteq> Some (File c) \<Longrightarrow> \<exists>e. readDiagram_v3 fs root f = Inl e"
  by (auto simp: readDiagram_v3_def readFile_def Let_def split: option.splits node.splits)

text \<open>
  C5. Let the root be set and let the listing of the root be \<open>files\<close>. When every entry
  that ends with \<^verbatim>\<open>.bpmn\<close> can be read, \<^verbatim>\<open>getDiagrams\<close> returns exactly one diagram per
  such entry, in listing order, and no others: its name is the filename without the
  suffix, its uri is \<open>join(root, filename)\<close>, its xml is the content of that file. When
  one of these entries cannot be read, \<^verbatim>\<open>getDiagrams\<close> fails as a whole. This holds for
  the first and second variant (\<open>_v1\<close>) and for \<^verbatim>\<open>part_000\<close> (\<open>_v3\<close>).
\<close>

theorem getDiagrams_listing:
  assumes "basePath repo = Some root"
    and "readdir fs root = Inr files"
    and "entries = filter (\<lambda>f. endsWith f ''.bpmn'') files"
  shows "((\<forall>f \<in> set entries. \<exists>c. map_of fs (path_join root f) = Some (File c)) \<longrightarrow>
            getDiagrams_v1 repo fs = Inr (map (spec_diagramOfEntry fs root) entries) \<and>
            getDiagrams_v3 repo fs = Inr (map (spec_diagramOfEntry fs root) entries)) \<and>
         ((\<exists>f \<in> set entries. \<forall>c. map_of fs (path_join root f) \<noteq> Some (File c)) \<longrightarrow>
            (\<exists>e. getDiagrams_v1 repo fs = Inl e) \<and> (\<exists>e. getDiagrams_v3 repo fs = Inl e))"
proof -
  have v1: "getDiagrams_v1 repo fs = promiseAll (map (readDiagram_v1 fs root) entries)"
    and v3: "getDiagrams_v3 repo fs = promiseAll (map (readDiagram_v3 fs root) entries)"
    using assms by (simp_all add: getDiagrams_v1_def getDiagrams_v3_def BPMN_FILE_SUFFIX_def)
  have plain: "\<And>f. f \<in> set entries \<Longrightarrow> CHR ''/'' \<notin> set f \<and> endsWith f BPMN_FILE_SUFFIX"
    using readdir_plain_names [OF assms(2)] assms(3) by (simp add: BPMN_FILE_SUFFIX_def)
  have good: "getDiagrams_v1 repo fs = Inr (map (spec_diagramOfEntry fs root) entries) \<and>
      getDiagrams_v3 repo fs = Inr (map (spec_diagramOfEntry fs root) entries)"
    if all: "\<forall>f \<in> set entries. \<exists>c. map_of fs (path_join root f) = Some (File c)"
  proof -
    have "map (readDiagram_v1 fs root) entries = map Inr (map (spec_diagramOfEntry fs root) entries)"
      using all plain by (auto intro: readDiagram_v1_spec)
    moreover have "map (readDiagram_v3 fs root) entries = map Inr (map (spec_diagramOfEntry fs root) entries)"
      using all by (auto intro: readDiagram_v3_spec)
    ultimately show ?thesis
      by (simp only: v1 v3 promiseAll_map_Inr)
  qed
  have bad: "(\<exists>e. getDiagrams_v1 repo fs = Inl e) \<and> (\<exists>e. getDiagrams_v3 repo fs = Inl e)"
    if some: "\<exists>f \<in> set entries. \<forall>c. map_of fs (path_join root f) \<noteq> Some (File c)"
  proof -
    from some obtain f where f: "f \<in> set entries"
      and nf: "\<forall>c. map_of fs (path_join root f) \<noteq> Some (File c)" by blast
    from readDiagram_v1_fails [OF nf] obtain e1 where "readDiagram_v1 fs root f = Inl e1" ..
    with f have "Inl e1 \<in> set (map (readDiagram_v1 fs root) entries)" by force
    then have a: "\<exists>e. getDiagrams_v1 repo fs = Inl e" unfolding v1 by (rule promiseAll_Inl)
    from readDiagram_v3_fails [OF nf] obtain e3 where "readDiagram_v3 fs root f = Inl e3" ..
    with f have "Inl e3 \<in> set (map (readDiagram_v3 fs root) entries)" by force
    then have "\<exists>e. getDiagrams_v3 repo fs = Inl e" unfolding v3 by (rule promiseAll_Inl)
    with a show ?thesis ..
  qed
  from good bad show ?thesis by blast
qed

theorem getDiagrams_listing_witness:
  "basePath example_repo = Some ''/sol'' \<and>
   readdir example_fs ''/sol'' = Inr [''a.bpmn'', ''b.bpmn'', ''c.txt''] \<and>
   filter (\<lambda>f. endsWith f ''.bpmn'') [''a.bpmn'', ''b.bpmn'', ''c.txt''] = [''a.bpmn'', ''b.bpmn''] \<and>
   map_of example_fs (path_join ''/sol'' ''a.bpmn'') = Some (File ''<a/>'') \<and>
   map_of example_fs (path_join ''/sol'' ''b.bpmn'') = Some (File ''<b/>'') \<and>
   getDiagrams_v1 example_repo example_fs = Inr example_listing \<and>
   getDiagrams_v3 example_repo example_fs = Inr example_listing \<and>
   readdir broken_fs ''/sol'' = Inr [''a.bpmn'', ''d.bpmn''] \<and>
   map_of broken_fs (path_join ''/sol'' ''d.bpmn'') = Some Directory \<and>
   getDiagrams_v1 example_repo broken_fs = Inl (FsError EISDIR) \<and>
   getDiagrams_v3 example_repo broken_fs = Inl (FsError EISDIR)"
proof -
  have root: "basePath example_repo = Some ''/sol''"
    by (simp add: example_repo_def)
  have listing: "readdir example_fs ''/sol'' = Inr [''a.bpmn'', ''b.bpmn'', ''c.txt'']"
    and entries: "[''a.bpmn'', ''b.bpmn''] =
      filter (\<lambda>f. endsWith f ''.bpmn'') [''a.bpmn'', ''b.bpmn'', ''c.txt'']"
    and a: "map_of example_fs (path_join ''/sol'' ''a.bpmn'') = Some (File ''<a/>'')"
    and b: "map_of example_fs (path_join ''/sol'' ''b.bpmn'') = Some (File ''<b/>'')"
    and spec: "map (spec_diagramOfEntry example_fs ''/sol'') [''a.bpmn'', ''b.bpmn''] = example_listing"
    by code_simp+
  have listing': "readdir broken_fs ''/sol'' = Inr [''a.bpmn'', ''d.bpmn'']"
    and entries': "[''a.bpmn'', ''d.bpmn''] =
      filter (\<lambda>f. endsWith f ''.bpmn'') [''a.bpmn'', ''d.bpmn'']"
    and d: "map_of broken_fs (path_join ''/sol'' ''d.bpmn'') = Some Directory"
    and r1: "getDiagrams_v1 example_repo broken_fs = Inl (FsError EISDIR)"
    and r3: "getDiagrams_v3 example_repo broken_fs = Inl (FsError EISDIR)"
    by code_simp+
  from getDiagrams_listing [OF root listing entries] a b spec
  have "getDiagrams_v1 example_repo example_fs = Inr example_listing \<and>
        getDiagrams_v3 example_repo example_fs = Inr example_listing"
    by simp
  moreover from getDiagrams_listing [OF root listing' entries'] d
  have "(\<exists>e. getDiagrams_v1 example_repo broken_fs = Inl e) \<and>
        (\<exists>e. getDiagrams_v3 example_repo broken_fs = Inl e)"
    by simp
  ultimately show ?thesis
    using root listing entries [symmetric] a b listing' d r1 r3 by simp
qed

section \<open>Saving a diagram\<close>

lemma saveDiagram_v1_unfold:
  "saveDiagram_v1 repo fs d np =
     (if isDirectory fs (path_dirname (case np of Some p \<Rightarrow> p | None \<Rightarrow> uri d))
      then writeDiagram fs (case np of Some p \<Rightarrow> p | None \<Rightarrow> uri d) (xml d)
      else (Inl (if existsSync fs (path_dirname (case np of Some p \<Rightarrow> p | None \<Rightarrow> uri d))
                 then BadRequestError else NotFoundError), fs))"
  by (simp add: saveDiagram_v1_def checkWriteablity_def checkForDirectory_cases Let_def)

lemma writeDiagram_failed:
  "fst (writeDiagram fs p c) \<noteq> Inr () \<Longrightarrow> snd (writeDiagram fs p c) = fs"
  by (simp add: writeDiagram_def split: sum.splits)

lemma saveDiagram_v1_twice:
  "saveDiagram_v1 repo (snd (saveDiagram_v1 repo fs d np)) d np = saveDiagram_v1 repo fs d np"
proof -
  define t where "t = (case np of Some p \<Rightarrow> p | None \<Rightarrow> uri d)"
  note unfold = saveDiagram_v1_unfold [of repo _ d np, folded t_def]
  show ?thesis
  proof (cases "isDirectory fs (path_dirname t)")
    case False
    then show ?thesis by (simp add: unfold)
  next
    case dir: True
    show ?thesis
    proof (cases "isDirectory fs t")
      case True
      with dir have "saveDiagram_v1 repo fs d np = (Inl (InternalServerError EISDIR), fs)"
        by (simp add: unfold writeDiagram_def writeFile_def parentError_def existsSync_def
            isDirectory_def)
      then show ?thesis by simp
    next
      case False
      let ?fs1 = "AList.update t (File (xml d)) fs"
      from dir False have ne: "path_dirname t \<noteq> t" by auto
      have first: "saveDiagram_v1 repo fs d np = (Inr (), ?fs1)"
        using dir False by (simp add: unfold writeDiagram_ok)
      have d1: "isDirectory ?fs1 (path_dirname t)"
        using dir ne by (simp add: isDirectory_def update_conv')
      have f1: "\<not> isDirectory ?fs1 t"
        by (simp add: isDirectory_def update_conv')
      have "saveDiagram_v1 repo ?fs1 d np = (Inr (), ?fs1)"
        using d1 f1 by (simp add: unfold writeDiagram_ok)
      with first show ?thesis by simp
    qed
  qed
qed

lemma saveDiagram_v1_content:
  "saveDiagram_v1 repo fs d np = (Inr (), fs1) \<Longrightarrow>
     map_of fs1 (case np of Some p \<Rightarrow> p | None \<Rightarrow> uri d) = Some (File (xml d))"
  by (auto simp: saveDiagram_v1_def writeDiagram_def writeFile_def Let_def update_conv'
      split: sum.splits option.splits if_splits)

lemma saveDiagram_v2_as_v1:
  "basePath repo = Some root \<Longrightarrow> np \<noteq> None \<or> path_join root (name d @ ''.bpmn'') = uri d \<Longrightarrow>
     saveDiagram_v2 repo fs d np = saveDiagram_v1 repo fs d np"
  by (auto simp: saveDiagram_v1_def saveDiagram_v2_def Let_def split: option.splits)

text \<open>
  C1, as the claim states it, fails on the first variant, whose \<^verbatim>\<open>saveDiagram\<close> makes no
  comparison: with the root \<^verbatim>\<open>/sol\<close>, a diagram named \<open>a\<close> whose \<open>uri\<close> is
  \<^verbatim>\<open>/trash/a.bpmn\<close> is written there. And a supplied \<open>newPath\<close> does not by itself lead
  to a write: into a missing directory the save fails with NotFound, in both variants.
\<close>

theorem saveDiagram_v1_moved_counterexample:
  "basePath example_repo = Some ''/sol'' \<and>
   path_join ''/sol'' (name moved_diagram @ ''.bpmn'') \<noteq> uri moved_diagram \<and>
   saveDiagram_v1 example_repo example_fs moved_diagram None =
     (Inr (), example_fs @ [(''/trash/a.bpmn'', File ''<moved/>'')]) \<and>
   saveDiagram_v1 example_repo example_fs diagram_a (Some ''/missing/a.bpmn'') =
     (Inl NotFoundError, example_fs) \<and>
   saveDiagram_v2 example_repo example_fs diagram_a (Some ''/missing/a.bpmn'') =
     (Inl NotFoundError, example_fs)"
  by code_simp

text \<open>
  C1, amended. Let \<open>t\<close> be the target: \<open>newPath\<close> when supplied, \<open>d.uri\<close> otherwise.
  In the second variant (and in \<^verbatim>\<open>part_000\<close>, which has the same text), with no
  \<open>newPath\<close> and \<open>join(root, d.name + '.bpmn')\<close> different from \<open>d.uri\<close>,
  \<^verbatim>\<open>saveDiagram\<close> fails with BadRequest and writes nothing; in every other case it does
  what the first variant does, which makes no comparison. There, when \<open>dirname(t)\<close> is
  an existing directory and \<open>t\<close> is not itself a directory, \<open>d.xml\<close> is written to
  \<open>t\<close>, whatever \<open>t\<close> held before; when \<open>dirname(t)\<close> is not a directory the call
  fails with BadRequest (it exists) or NotFound (it does not) and writes nothing.
\<close>

theorem saveDiagram_guard_and_write:
  assumes "basePath repo = Some root"
    and "t = (case np of Some p \<Rightarrow> p | None \<Rightarrow> uri d)"
  shows "(np = None \<and> path_join root (name d @ ''.bpmn'') \<noteq> uri d \<longrightarrow>
            saveDiagram_v2 repo fs d np = (Inl BadRequestError, fs)) \<and>
         (np \<noteq> None \<or> path_join root (name d @ ''.bpmn'') = uri d \<longrightarrow>
            saveDiagram_v2 repo fs d np = saveDiagram_v1 repo fs d np) \<and>
         (isDirectory fs (path_dirname t) \<and> \<not> isDirectory fs t \<longrightarrow>
            saveDiagram_v1 repo fs d np = (Inr (), AList.update t (File (xml d)) fs) \<and>
            map_of (AList.update t (File (xml d)) fs) t = Some (File (xml d))) \<and>
         (\<not> isDirectory fs (path_dirname t) \<longrightarrow>
            saveDiagram_v1 repo fs d np =
              (Inl (if existsSync fs (path_dirname t) then BadRequestError else NotFoundError),
               fs))"
proof -
  have guard: "np = None \<and> path_join root (name d @ ''.bpmn'') \<noteq> uri d \<longrightarrow>
      saveDiagram_v2 repo fs d np = (Inl BadRequestError, fs)"
    using assms(1) by (simp add: saveDiagram_v2_def)
  have same: "np \<noteq> None \<or> path_join root (name d @ ''.bpmn'') = uri d \<longrightarrow>
      saveDiagram_v2 repo fs d np = saveDiagram_v1 repo fs d np"
    using saveDiagram_v2_as_v1 [OF assms(1)] by blast
  have written: "isDirectory fs (path_dirname t) \<and> \<not> isDirectory fs t \<longrightarrow>
      saveDiagram_v1 repo fs d np = (Inr (), AList.update t (File (xml d)) fs) \<and>
      map_of (AList.update t (File (xml d)) fs) t = Some (File (xml d))"
    by (simp add: saveDiagram_v1_unfold assms(2) writeDiagram_ok update_conv')
  have refused: "\<not> isDirectory fs (path_dirname t) \<longrightarrow>
      saveDiagram_v1 repo fs d np =
        (Inl (if existsSync fs (path_dirname t) then BadRequestError else NotFoundError), fs)"
    by (simp add: saveDiagram_v1_unfold assms(2))
  from guard same written refused show ?thesis by blast
qed

theorem saveDiagram_guard_and_write_witness:
  "basePath example_repo = Some ''/sol'' \<and>
   path_join ''/sol'' (name moved_diagram @ ''.bpmn'') \<noteq> uri moved_diagram \<and>
   saveDiagram_v2 example_repo example_fs moved_diagram None = (Inl BadRequestError, example_fs) \<and>
   path_join ''/sol'' (name diagram_a @ ''.bpmn'') = uri diagram_a \<and>
   isDirectory example_fs (path_dirname (uri diagram_a)) \<and>
   \<not> isDirectory example_fs (uri diagram_a) \<and>
   saveDiagram_v2 example_repo example_fs diagram_a None =
     (Inr (), AList.update (uri diagram_a) (File (xml diagram_a)) example_fs) \<and>
   saveDiagram_v1 example_repo example_fs diagram_a None =
     (Inr (), AList.update (uri diagram_a) (File (xml diagram_a)) example_fs) \<and>
   \<not> isDirectory example_fs (path_dirname ''/missing/a.bpmn'') \<and>
   \<not> existsSync example_fs (path_dirname ''/missing/a.bpmn'') \<and>
   saveDiagram_v1 example_repo example_fs diagram_a (Some ''/missing/a.bpmn'') =
     (Inl NotFoundError, example_fs) \<and>
   saveDiagram_v2 example_repo example_fs diagram_a (Some ''/missing/a.bpmn'') =
     (Inl NotFoundError, example_fs)"
proof -
  have root: "basePath example_repo = Some ''/sol''"
    by (simp add: example_repo_def)
  have moved: "path_join ''/sol'' (name moved_diagram @ ''.bpmn'') \<noteq> uri moved_diagram"
    by code_simp
  have kept: "path_join ''/sol'' (name diagram_a @ ''.bpmn'') = uri diagram_a"
    by code_simp
  have dir: "isDirectory example_fs (path_dirname (uri diagram_a))"
    and plain: "\<not> isDirectory example_fs (uri diagram_a)"
    and nodir: "\<not> isDirectory example_fs (path_dirname ''/missing/a.bpmn'')"
    and absent: "\<not> existsSync example_fs (path_dirname ''/missing/a.bpmn'')"
    by code_simp+
  note a = saveDiagram_guard_and_write [OF root, where t = "uri moved_diagram" and np = None
      and d = moved_diagram and fs = example_fs]
  note b = saveDiagram_guard_and_write [OF root, where t = "uri diagram_a" and np = None
      and d = diagram_a and fs = example_fs]
  note c = saveDiagram_guard_and_write [OF root, where t = "''/missing/a.bpmn''"
      and np = "Some ''/missing/a.bpmn''" and d = diagram_a and fs = example_fs]
  from a moved have 1:
    "saveDiagram_v2 example_repo example_fs moved_diagram None = (Inl BadRequestError, example_fs)"
    by simp
  from b kept dir plain have 2:
    "saveDiagram_v2 example_repo example_fs diagram_a None =
       (Inr (), AList.update (uri diagram_a) (File (xml diagram_a)) example_fs)"
    "saveDiagram_v1 example_repo example_fs diagram_a None =
       (Inr (), AList.update (uri diagram_a) (File (xml diagram_a)) example_fs)"
    by simp_all
  from c nodir absent have 3:
    "saveDiagram_v1 example_repo example_fs diagram_a (Some ''/missing/a.bpmn'') =
       (Inl NotFoundError, example_fs)"
    "saveDiagram_v2 example_repo example_fs diagram_a (Some ''/missing/a.bpmn'') =
       (Inl NotFoundError, example_fs)"
    by simp_all
  from root moved kept dir plain nodir absent 1 2 3 show ?thesis by blast
qed

text \<open>
  C9. For a diagram whose \<open>uri\<close> is \<open>join(root, d.name + '.bpmn')\<close>, a second
  \<^verbatim>\<open>saveDiagram(d)\<close> returns what the first returned and leaves the store the first left;
  when the save succeeds, the file at \<open>d.uri\<close> holds exactly \<open>d.xml\<close>.
\<close>

theorem saveDiagram_twice:
  assumes "basePath repo = Some root"
    and "uri d = path_join root (name d @ ''.bpmn'')"
  shows "saveDiagram_v1 repo (snd (saveDiagram_v1 repo fs d None)) d None =
           saveDiagram_v1 repo fs d None \<and>
         saveDiagram_v2 repo (snd (saveDiagram_v2 repo fs d None)) d None =
           saveDiagram_v2 repo fs d None \<and>
         (fst (saveDiagram_v1 repo fs d None) = Inr () \<longrightarrow>
            map_of (snd (saveDiagram_v1 repo fs d None)) (uri d) = Some (File (xml d))) \<and>
         (fst (saveDiagram_v2 repo fs d None) = Inr () \<longrightarrow>
            map_of (snd (saveDiagram_v2 repo fs d None)) (uri d) = Some (File (xml d)))"
proof -
  have eq: "\<And>fs. saveDiagram_v2 repo fs d None = saveDiagram_v1 repo fs d None"
    using assms by (simp add: saveDiagram_v2_as_v1)
  have c: "fst (saveDiagram_v1 repo fs d None) = Inr () \<longrightarrow>
            map_of (snd (saveDiagram_v1 repo fs d None)) (uri d) = Some (File (xml d))"
    using saveDiagram_v1_content [of repo fs d None "snd (saveDiagram_v1 repo fs d None)"]
    by (cases "saveDiagram_v1 repo fs d None") auto
  show ?thesis
    using saveDiagram_v1_twice [of repo fs d None] c by (simp add: eq)
qed

theorem saveDiagram_twice_witness:
  "basePath example_repo = Some ''/sol'' \<and>
   uri diagram_a = path_join ''/sol'' (name diagram_a @ ''.bpmn'') \<and>
   saveDiagram_v1 example_repo (snd (saveDiagram_v1 example_repo example_fs diagram_a None))
       diagram_a None =
     saveDiagram_v1 example_repo example_fs diagram_a None \<and>
   saveDiagram_v2 example_repo (snd (saveDiagram_v2 example_repo example_fs diagram_a None))
       diagram_a None =
     saveDiagram_v2 example_repo example_fs diagram_a None \<and>
   fst (saveDiagram_v1 example_repo example_fs diagram_a None) = Inr () \<and>
   fst (saveDiagram_v2 example_repo example_fs diagram_a None) = Inr () \<and>
   map_of (snd (saveDiagram_v1 example_repo example_fs diagram_a None)) (uri diagram_a) =
     Some (File (xml diagram_a)) \<and>
   map_of (snd (saveDiagram_v2 example_repo example_fs diagram_a None)) (uri diagram_a) =
     Some (File (xml diagram_a))"
proof -
  have root: "basePath example_repo = Some ''/sol''"
    by (simp add: example_repo_def)
  have kept: "uri diagram_a = path_join ''/sol'' (name diagram_a @ ''.bpmn'')"
    by code_simp
  have ok: "fst (saveDiagram_v1 example_repo example_fs diagram_a None) = Inr ()"
    "fst (saveDiagram_v2 example_repo example_fs diagram_a None) = Inr ()"
    by code_simp+
  from saveDiagram_twice [OF root kept, where fs = example_fs] root kept ok
  show ?thesis by simp
qed

section \<open>Saving a solution\<close>

lemma writeDiagram_dirs: "isDirectory (snd (writeDiagram fs p c)) q = isDirectory fs q"
  by (auto simp: writeDiagram_def writeFile_def isDirectory_def update_conv'
      split: sum.splits option.splits if_splits)

lemma writeDiagram_success_iff:
  "fst (writeDiagram fs p c) = Inr () \<longleftrightarrow> isDirectory fs (path_dirname p) \<and> \<not> isDirectory fs p"
  by (auto simp: writeDiagram_def writeFile_def parentError_def isDirectory_def existsSync_def
      split: sum.splits option.splits if_splits)

lemma writeDiagram_frame: "q \<noteq> p \<Longrightarrow> map_of (snd (writeDiagram fs p c)) q = map_of fs q"
  by (auto simp: writeDiagram_def writeFile_def update_conv'
      split: sum.splits option.splits if_splits)

lemma writeDiagram_content:
  "fst (writeDiagram fs p c) = Inr () \<Longrightarrow> map_of (snd (writeDiagram fs p c)) p = Some (File c)"
  by (auto simp: writeDiagram_def writeFile_def update_conv'
      split: sum.splits option.splits if_splits)

lemma finishSave_dirs: "isDirectory (snd (finishSave fs s)) q = isDirectory fs q"
  by (cases s) (simp_all add: writeDiagram_dirs)

lemma finishSave_success_cong:
  "\<forall>q. isDirectory fs q = isDirectory fs0 q \<Longrightarrow>
     (fst (finishSave fs s) = Inr ()) = (fst (finishSave fs0 s) = Inr ())"
  by (cases s) (simp_all add: writeDiagram_success_iff)

lemma finishSave_frame:
  "writesOnlyOwnUri start \<Longrightarrow> q \<noteq> uri d \<Longrightarrow> map_of (snd (finishSave fs (start d))) q = map_of fs q"
  by (cases "start d") (auto simp: writesOnlyOwnUri_def writeDiagram_frame)

lemma finishSave_content:
  "writesOnlyOwnUri start \<Longrightarrow> fst (finishSave fs (start d)) = Inr () \<Longrightarrow>
     map_of (snd (finishSave fs (start d))) (uri d) = Some (File (xml d))"
  by (cases "start d") (auto simp: writesOnlyOwnUri_def writeDiagram_content)

lemma finishAll_Cons:
  "finishAll fs (s # ss) =
     (fst (finishSave fs s) # fst (finishAll (snd (finishSave fs s)) ss),
      snd (finishAll (snd (finishSave fs s)) ss))"
  by (simp split: prod.splits)

lemma finishAll_frame:
  "writesOnlyOwnUri start \<Longrightarrow> q \<notin> uri ` set ds \<Longrightarrow>
     map_of (snd (finishAll fs (map start ds))) q = map_of fs q"
proof (induction ds arbitrary: fs)
  case Nil
  then show ?case by simp
next
  case (Cons d ds)
  then show ?case
    by (simp add: finishAll_Cons finishSave_frame del: finishAll.simps)
qed

lemma finishAll_results:
  "\<forall>q. isDirectory fs q = isDirectory fs0 q \<Longrightarrow>
     (\<forall>r \<in> set (fst (finishAll fs ss)). r = Inr ()) =
     (\<forall>s \<in> set ss. fst (finishSave fs0 s) = Inr ())"
proof (induction ss arbitrary: fs)
  case Nil
  then show ?case by simp
next
  case (Cons s ss)
  from Cons.prems have "\<forall>q. isDirectory (snd (finishSave fs s)) q = isDirectory fs0 q"
    by (simp add: finishSave_dirs)
  from Cons.IH [OF this] finishSave_success_cong [OF Cons.prems, of s]
  show ?case by (simp add: finishAll_Cons del: finishAll.simps)
qed

lemma finishAll_content:
  assumes "writesOnlyOwnUri start"
  shows "\<forall>q. isDirectory fs q = isDirectory fs0 q \<Longrightarrow> distinct (map uri ds) \<Longrightarrow>
     d \<in> set ds \<Longrightarrow> fst (finishSave fs0 (start d)) = Inr () \<Longrightarrow>
     map_of (snd (finishAll fs (map start ds))) (uri d) = Some (File (xml d))"
proof (induction ds arbitrary: fs)
  case Nil
  then show ?case by simp
next
  case (Cons d0 ds)
  let ?fs1 = "snd (finishSave fs (start d0))"
  have dirs1: "\<forall>q. isDirectory ?fs1 q = isDirectory fs0 q"
    using Cons.prems(1) by (simp add: finishSave_dirs)
  show ?case
  proof (cases "d = d0")
    case True
    from Cons.prems(2) True have "uri d \<notin> uri ` set ds" by auto
    then have "map_of (snd (finishAll ?fs1 (map start ds))) (uri d) = map_of ?fs1 (uri d)"
      by (rule finishAll_frame [OF assms])
    moreover have "fst (finishSave fs (start d0)) = Inr ()"
      using finishSave_success_cong [OF Cons.prems(1)] Cons.prems(4) True by simp
    then have "map_of ?fs1 (uri d0) = Some (File (xml d0))"
      by (rule finishSave_content [OF assms])
    ultimately show ?thesis using True by (simp add: finishAll_Cons del: finishAll.simps)
  next
    case False
    with Cons.prems have "d \<in> set ds" "distinct (map uri ds)" by auto
    from Cons.IH [OF dirs1 this(2) this(1) Cons.prems(4)]
    show ?thesis by (simp add: finishAll_Cons del: finishAll.simps)
  qed
qed

lemma writeErrors_empty: "writeErrors rs = [] \<longleftrightarrow> (\<forall>r \<in> set rs. r = Inr ())"
  by (induction rs rule: writeErrors.induct) auto

lemma no_early_errors:
  "\<forall>r \<in> set (fst (finishAll fs ss)). r = Inr () \<Longrightarrow> thrownErrors ss = [] \<and> checkErrors ss = []"
proof (induction ss arbitrary: fs)
  case Nil
  then show ?case by simp
next
  case (Cons s ss)
  then show ?case
    by (cases s) (auto simp: finishAll_Cons simp del: finishAll.simps)
qed

lemma promiseAll_saves_ok:
  "promiseAll_saves ss (fst (finishAll fs ss)) = Inr () \<longleftrightarrow>
     (\<forall>r \<in> set (fst (finishAll fs ss)). r = Inr ())"
proof
  assume "promiseAll_saves ss (fst (finishAll fs ss)) = Inr ()"
  then have "writeErrors (fst (finishAll fs ss)) = []"
    by (auto simp: promiseAll_saves_def split: list.splits)
  then show "\<forall>r \<in> set (fst (finishAll fs ss)). r = Inr ()"
    by (simp add: writeErrors_empty)
next
  assume all: "\<forall>r \<in> set (fst (finishAll fs ss)). r = Inr ()"
  from no_early_errors [OF all] all show "promiseAll_saves ss (fst (finishAll fs ss)) = Inr ()"
    by (simp add: promiseAll_saves_def writeErrors_empty [symmetric])
qed

lemma saveDiagram_v1_staged:
  "finishSave fs (saveDiagram_v1_start repo fs d np) = saveDiagram_v1 repo fs d np"
  by (simp add: saveDiagram_v1_start_def saveDiagram_v1_def Let_def split: sum.splits)

lemma saveDiagram_v2_staged:
  "finishSave fs (saveDiagram_v2_start repo fs d np) = saveDiagram_v2 repo fs d np"
  by (simp add: saveDiagram_v2_start_def saveDiagram_v2_def Let_def
      split: sum.splits option.splits)

lemma saveDiagram_v1_start_own:
  "writesOnlyOwnUri (\<lambda>d. saveDiagram_v1_start repo fs d None)"
  by (auto simp: writesOnlyOwnUri_def saveDiagram_v1_start_def Let_def split: sum.splits)

lemma saveDiagram_v2_start_own:
  "writesOnlyOwnUri (\<lambda>d. saveDiagram_v2_start repo fs d None)"
  by (auto simp: writesOnlyOwnUri_def saveDiagram_v2_start_def Let_def
      split: sum.splits option.splits if_splits)

lemma saveSolution_with_refused:
  "checkForDirectory fs newRoot = Inl e \<Longrightarrow>
     saveSolution_with start repo fs sol (Some newRoot) = (Inl e, fs, repo)"
  by (simp add: saveSolution_with_def openPath_def)

lemma saveSolution_with_reopened:
  assumes ok: "checkForDirectory fs newRoot = Inr ()"
    and own: "writesOnlyOwnUri (\<lambda>d. start (repo\<lparr>basePath := Some newRoot\<rparr>) fs d None)"
    and staged: "\<And>d. finishSave fs (start (repo\<lparr>basePath := Some newRoot\<rparr>) fs d None) =
        save (repo\<lparr>basePath := Some newRoot\<rparr>) fs d None"
    and out: "out = saveSolution_with start repo fs sol (Some newRoot)"
  shows "snd (snd out) = repo\<lparr>basePath := Some newRoot\<rparr>"
    and "(fst out = Inr ()) =
         (\<forall>d \<in> set (diagrams sol). fst (save (repo\<lparr>basePath := Some newRoot\<rparr>) fs d None) = Inr ())"
    and "distinct (map uri (diagrams sol)) \<Longrightarrow> d \<in> set (diagrams sol) \<Longrightarrow>
         fst (save (repo\<lparr>basePath := Some newRoot\<rparr>) fs d None) = Inr () \<Longrightarrow>
         map_of (fst (snd out)) (uri d) = Some (File (xml d))"
    and "p \<notin> uri ` set (diagrams sol) \<Longrightarrow> map_of (fst (snd out)) p = map_of fs p"
proof -
  let ?repo = "repo\<lparr>basePath := Some newRoot\<rparr>"
  let ?start = "\<lambda>d. start ?repo fs d None"
  let ?states = "map ?start (diagrams sol)"
  have o: "out = (promiseAll_saves ?states (fst (finishAll fs ?states)),
      snd (finishAll fs ?states), ?repo)"
    using ok by (simp add: out saveSolution_with_def openPath_def Let_def split: prod.splits)
  show "snd (snd out) = ?repo" by (simp add: o)
  show "(fst out = Inr ()) = (\<forall>d \<in> set (diagrams sol). fst (save ?repo fs d None) = Inr ())"
    using finishAll_results [of fs fs ?states]
    by (simp add: o promiseAll_saves_ok staged)
  show "map_of (fst (snd out)) (uri d) = Some (File (xml d))"
    if "distinct (map uri (diagrams sol))" "d \<in> set (diagrams sol)"
      "fst (save ?repo fs d None) = Inr ()"
    using finishAll_content [OF own, of fs fs "diagrams sol" d] that
    by (simp add: o staged)
  show "map_of (fst (snd out)) p = map_of fs p" if "p \<notin> uri ` set (diagrams sol)"
    using finishAll_frame [OF own that, of fs] by (simp add: o)
qed

text \<open>
  C7. \<^verbatim>\<open>saveSolution(s, newRoot)\<close> opens \<open>newRoot\<close> first, with the stored identity: when
  that fails, the failure is the result and nothing is saved. Otherwise the root becomes
  \<open>newRoot\<close>, the identity stays, and every diagram of \<open>s\<close> is saved by
  \<^verbatim>\<open>saveDiagram\<close> without a new path under the new root: the result is a success exactly
  when every single save succeeds; no path other than the diagrams' own uris changes; and,
  the uris being distinct, every diagram whose own save succeeds is in the store afterwards,
  whatever the overall result.
\<close>

theorem saveSolution_reopens_then_saves:
  assumes "out1 = saveSolution_v1 repo fs sol (Some newRoot)"
    and "out2 = saveSolution_v2 repo fs sol (Some newRoot)"
    and "repo' = repo\<lparr>basePath := Some newRoot, identity := identity repo\<rparr>"
  shows "(\<forall>e. checkForDirectory fs newRoot = Inl e \<longrightarrow>
            out1 = (Inl e, fs, repo) \<and> out2 = (Inl e, fs, repo)) \<and>
         (checkForDirectory fs newRoot = Inr () \<longrightarrow>
            snd (snd out1) = repo' \<and> snd (snd out2) = repo' \<and>
            ((fst out1 = Inr ()) =
               (\<forall>d \<in> set (diagrams sol). fst (saveDiagram_v1 repo' fs d None) = Inr ())) \<and>
            ((fst out2 = Inr ()) =
               (\<forall>d \<in> set (diagrams sol). fst (saveDiagram_v2 repo' fs d None) = Inr ())) \<and>
            (distinct (map uri (diagrams sol)) \<longrightarrow>
               (\<forall>d \<in> set (diagrams sol).
                  (fst (saveDiagram_v1 repo' fs d None) = Inr () \<longrightarrow>
                     map_of (fst (snd out1)) (uri d) = Some (File (xml d))) \<and>
                  (fst (saveDiagram_v2 repo' fs d None) = Inr () \<longrightarrow>
                     map_of (fst (snd out2)) (uri d) = Some (File (xml d))))) \<and>
            (\<forall>p. p \<notin> uri ` set (diagrams sol) \<longrightarrow>
               map_of (fst (snd out1)) p = map_of fs p \<and>
               map_of (fst (snd out2)) p = map_of fs p))"
proof -
  have r: "repo' = repo\<lparr>basePath := Some newRoot\<rparr>"
    by (simp add: assms(3))
  have refused: "out1 = (Inl e, fs, repo) \<and> out2 = (Inl e, fs, repo)"
    if "checkForDirectory fs newRoot = Inl e" for e
    using that
    by (simp add: assms(1,2) saveSolution_v1_def saveSolution_v2_def saveSolution_with_refused)
  have reopened: "snd (snd out1) = repo' \<and> snd (snd out2) = repo' \<and>
      ((fst out1 = Inr ()) =
         (\<forall>d \<in> set (diagrams sol). fst (saveDiagram_v1 repo' fs d None) = Inr ())) \<and>
      ((fst out2 = Inr ()) =
         (\<forall>d \<in> set (diagrams sol). fst (saveDiagram_v2 repo' fs d None) = Inr ())) \<and>
      (distinct (map uri (diagrams sol)) \<longrightarrow>
         (\<forall>d \<in> set (diagrams sol).
            (fst (saveDiagram_v1 repo' fs d None) = Inr () \<longrightarrow>
               map_of (fst (snd out1)) (uri d) = Some (File (xml d))) \<and>
            (fst (saveDiagram_v2 repo' fs d None) = Inr () \<longrightarrow>
               map_of (fst (snd out2)) (uri d) = Some (File (xml d))))) \<and>
      (\<forall>p. p \<notin> uri ` set (diagrams sol) \<longrightarrow>
         map_of (fst (snd out1)) p = map_of fs p \<and>
         map_of (fst (snd out2)) p = map_of fs p)"
    if ok: "checkForDirectory fs newRoot = Inr ()"
  proof -
    note v1 = saveSolution_with_reopened [where start = saveDiagram_v1_start
        and save = saveDiagram_v1 and repo = repo and fs = fs and newRoot = newRoot
        and out = out1 and sol = sol,
        OF ok saveDiagram_v1_start_own saveDiagram_v1_staged
          assms(1) [unfolded saveSolution_v1_def], folded r]
    note v2 = saveSolution_with_reopened [where start = saveDiagram_v2_start
        and save = saveDiagram_v2 and repo = repo and fs = fs and newRoot = newRoot
        and out = out2 and sol = sol,
        OF ok saveDiagram_v2_start_own saveDiagram_v2_staged
          assms(2) [unfolded saveSolution_v2_def], folded r]
    from v1(1) v2(1) v1(2) v2(2) v1(3) v2(3) v1(4) v2(4) show ?thesis by blast
  qed
  from refused reopened show ?thesis by blast
qed

theorem saveSolution_reopens_then_saves_witness:
  "checkForDirectory example_fs ''/missing'' = Inl NotFoundError \<and>
   saveSolution_v1 closed_repo example_fs example_solution (Some ''/missing'') =
     (Inl NotFoundError, example_fs, closed_repo) \<and>
   saveSolution_v2 closed_repo example_fs example_solution (Some ''/missing'') =
     (Inl NotFoundError, example_fs, closed_repo) \<and>
   checkForDirectory example_fs ''/sol'' = Inr () \<and>
   distinct (map uri (diagrams example_solution)) \<and>
   snd (snd (saveSolution_v1 closed_repo example_fs example_solution (Some ''/sol''))) =
     example_repo \<and>
   snd (snd (saveSolution_v2 closed_repo example_fs example_solution (Some ''/sol''))) =
     example_repo \<and>
   fst (saveDiagram_v1 example_repo example_fs diagram_q None) = Inl NotFoundError \<and>
   fst (saveDiagram_v2 example_repo example_fs diagram_q None) = Inl BadRequestError \<and>
   fst (saveSolution_v1 closed_repo example_fs example_solution (Some ''/sol'')) \<noteq> Inr () \<and>
   fst (saveSolution_v2 closed_repo example_fs example_solution (Some ''/sol'')) \<noteq> Inr () \<and>
   fst (saveDiagram_v1 example_repo example_fs diagram_z None) = Inr () \<and>
   fst (saveDiagram_v2 example_repo example_fs diagram_z None) = Inr () \<and>
   map_of (fst (snd (saveSolution_v1 closed_repo example_fs example_solution (Some ''/sol''))))
       (uri diagram_z) = Some (File (xml diagram_z)) \<and>
   map_of (fst (snd (saveSolution_v2 closed_repo example_fs example_solution (Some ''/sol''))))
       (uri diagram_z) = Some (File (xml diagram_z)) \<and>
   map_of (fst (snd (saveSolution_v1 closed_repo example_fs example_solution (Some ''/sol''))))
       ''/sol/c.txt'' = map_of example_fs ''/sol/c.txt''"
proof -
  have missing: "checkForDirectory example_fs ''/missing'' = Inl NotFoundError"
    and ok: "checkForDirectory example_fs ''/sol'' = Inr ()"
    and dist: "distinct (map uri (diagrams example_solution))"
    and q: "fst (saveDiagram_v1 example_repo example_fs diagram_q None) = Inl NotFoundError"
      "fst (saveDiagram_v2 example_repo example_fs diagram_q None) = Inl BadRequestError"
    and z: "fst (saveDiagram_v1 example_repo example_fs diagram_z None) = Inr ()"
      "fst (saveDiagram_v2 example_repo example_fs diagram_z None) = Inr ()"
    by code_simp+
  have mem: "diagram_q \<in> set (diagrams example_solution)"
    "diagram_z \<in> set (diagrams example_solution)"
    by (simp_all add: example_solution_def)
  have other: "''/sol/c.txt'' \<notin> uri ` set (diagrams example_solution)"
    by (simp add: example_solution_def diagram_a_def diagram_q_def diagram_z_def)
  have r: "example_repo = closed_repo\<lparr>basePath := Some ''/sol'', identity := identity closed_repo\<rparr>"
    by (simp add: example_repo_def closed_repo_def)
  note a = saveSolution_reopens_then_saves [OF refl refl refl, where fs = example_fs
      and newRoot = "''/missing''" and repo = closed_repo and sol = example_solution]
  note b = saveSolution_reopens_then_saves [OF refl refl r, where fs = example_fs
      and sol = example_solution]
  from a missing have 1:
    "saveSolution_v1 closed_repo example_fs example_solution (Some ''/missing'') =
       (Inl NotFoundError, example_fs, closed_repo)"
    "saveSolution_v2 closed_repo example_fs example_solution (Some ''/missing'') =
       (Inl NotFoundError, example_fs, closed_repo)"
    by blast+
  from b ok have 2:
    "snd (snd (saveSolution_v1 closed_repo example_fs example_solution (Some ''/sol''))) =
       example_repo"
    "snd (snd (saveSolution_v2 closed_repo example_fs example_solution (Some ''/sol''))) =
       example_repo"
    by blast+
  from b ok mem(1) q have 3:
    "fst (saveSolution_v1 closed_repo example_fs example_solution (Some ''/sol'')) \<noteq> Inr ()"
    "fst (saveSolution_v2 closed_repo example_fs example_solution (Some ''/sol'')) \<noteq> Inr ()"
    by force+
  from b ok dist mem(2) z have 4:
    "map_of (fst (snd (saveSolution_v1 closed_repo example_fs example_solution (Some ''/sol''))))
       (uri diagram_z) = Some (File (xml diagram_z))"
    "map_of (fst (snd (saveSolution_v2 closed_repo example_fs example_solution (Some ''/sol''))))
       (uri diagram_z) = Some (File (xml diagram_z))"
    by blast+
  from b ok other have 5:
    "map_of (fst (snd (saveSolution_v1 closed_repo example_fs example_solution (Some ''/sol''))))
       ''/sol/c.txt'' = map_of example_fs ''/sol/c.txt''"
    by blast
  from missing ok dist q z 1 2 3 4 5 show ?thesis by blast
qed

section \<open>Renaming a diagram\<close>

text \<open>
  C3, as the claim states it, fails on the first variant: a new name that equals the
  diagram's name up to letter case is not treated as a collision, and the rename replaces
  the file that is already at the destination. The names here, \<open>A\<close> and \<open>a\<close>, are
  ASCII, where \<^verbatim>\<open>toLowerCase\<close> is \<^const>\<open>toLowerCase_ascii\<close>.
\<close>

theorem renameDiagram_v1_case_counterexample:
  "existsSync case_fs (path_join ''/sol'' (''a'' @ ''.bpmn'')) \<and>
   renameDiagram_v1 toLowerCase_ascii example_repo case_fs diagram_A ''a'' =
     (Inr \<lparr>name = ''a'', uri = ''/sol/a.bpmn'', xml = ''<upper/>'',
           id_field = Some ''/sol/a.bpmn''\<rparr>,
      [(''/'', Directory), (''/sol'', Directory), (''/sol/a.bpmn'', File ''<upper/>'')])"
  by code_simp

text \<open>
  C3, amended. When an entry exists at \<open>join(root, y + '.bpmn')\<close> (inside an existing
  directory), the second variant's \<^verbatim>\<open>renameDiagram(d, y)\<close> fails with BadRequest and leaves
  the store as it is. The first variant does so when \<open>y.toLowerCase()\<close> differs from
  \<open>d.name.toLowerCase()\<close>; when the two are equal it goes on to the rename. The
  statement holds whatever function \<open>lower\<close> the language's \<^verbatim>\<open>toLowerCase\<close> is, so also
  for names outside ASCII.
\<close>

theorem renameDiagram_collision:
  assumes "basePath repo = Some root"
    and "new = path_join root (y @ ''.bpmn'')"
    and "existsSync fs new"
    and "isDirectory fs (path_dirname new)"
  shows "renameDiagram_v2 repo fs d y = (Inl BadRequestError, fs) \<and>
         (lower y \<noteq> lower (name d) \<longrightarrow>
            renameDiagram_v1 lower repo fs d y = (Inl BadRequestError, fs)) \<and>
         (lower y = lower (name d) \<longrightarrow>
            renameDiagram_v1 lower repo fs d y =
              (case rename fs (uri d) new of
                 Inl e \<Rightarrow> (Inl (FsError e), fs)
               | Inr fs' \<Rightarrow> (getDiagramByName repo fs' y, fs')))"
  using assms
  by (simp add: renameDiagram_v1_def renameDiagram_v2_def BPMN_FILE_SUFFIX_def Let_def
      checkWriteablity_def checkForDirectory_cases)

theorem renameDiagram_collision_witness:
  "basePath example_repo = Some ''/sol'' \<and>
   existsSync example_fs (path_join ''/sol'' (''b'' @ ''.bpmn'')) \<and>
   isDirectory example_fs (path_dirname (path_join ''/sol'' (''b'' @ ''.bpmn''))) \<and>
   toLowerCase_ascii ''b'' \<noteq> toLowerCase_ascii (name diagram_a) \<and>
   renameDiagram_v2 example_repo example_fs diagram_a ''b'' = (Inl BadRequestError, example_fs) \<and>
   renameDiagram_v1 toLowerCase_ascii example_repo example_fs diagram_a ''b'' =
     (Inl BadRequestError, example_fs) \<and>
   existsSync case_fs (path_join ''/sol'' (''a'' @ ''.bpmn'')) \<and>
   isDirectory case_fs (path_dirname (path_join ''/sol'' (''a'' @ ''.bpmn''))) \<and>
   toLowerCase_ascii ''a'' = toLowerCase_ascii (name diagram_A) \<and>
   renameDiagram_v2 example_repo case_fs diagram_A ''a'' = (Inl BadRequestError, case_fs)"
proof -
  have root: "basePath example_repo = Some ''/sol''"
    by (simp add: example_repo_def)
  have there: "existsSync example_fs (path_join ''/sol'' (''b'' @ ''.bpmn''))"
    and dir: "isDirectory example_fs (path_dirname (path_join ''/sol'' (''b'' @ ''.bpmn'')))"
    and changed: "toLowerCase_ascii ''b'' \<noteq> toLowerCase_ascii (name diagram_a)"
    and there': "existsSync case_fs (path_join ''/sol'' (''a'' @ ''.bpmn''))"
    and dir': "isDirectory case_fs (path_dirname (path_join ''/sol'' (''a'' @ ''.bpmn'')))"
    and same: "toLowerCase_ascii ''a'' = toLowerCase_ascii (name diagram_A)"
    by code_simp+
  from renameDiagram_collision [OF root refl there dir, where d = diagram_a
      and lower = toLowerCase_ascii]
    renameDiagram_collision [OF root refl there' dir', where d = diagram_A
      and lower = toLowerCase_ascii]
    root there dir changed there' dir' same
  show ?thesis by blast
qed

text \<open>
  C6. Let the root be set, let nothing exist at \<open>new = join(root, y + '.bpmn')\<close>, whose
  directory exists, and let \<open>d.uri\<close> be a file with content \<open>c\<close>. Then
  \<^verbatim>\<open>renameDiagram(d, y)\<close> succeeds in both variants; afterwards nothing exists at
  \<open>d.uri\<close>, the file at \<open>new\<close> holds \<open>c\<close>, and the diagram returned is the one
  \<^verbatim>\<open>getDiagramByName(y)\<close> reads from the store after the rename: its name is \<open>y\<close>, its
  \<open>uri\<close> and \<open>id\<close> are \<open>new\<close>, its \<open>xml\<close> is \<open>c\<close>. In the first variant
  this is so for every lowering \<open>lower\<close>.
\<close>

theorem renameDiagram_free_destination:
  assumes "basePath repo = Some root"
    and "new = path_join root (y @ ''.bpmn'')"
    and "isDirectory fs (path_dirname new)"
    and "\<not> existsSync fs new"
    and "map_of fs (uri d) = Some (File c)"
    and "fs' = AList.update new (File c) (AList.delete (uri d) fs)"
    and "d' = \<lparr>name = y, uri = new, xml = c, id_field = Some new\<rparr>"
  shows "renameDiagram_v1 lower repo fs d y = (Inr d', fs') \<and>
         renameDiagram_v2 repo fs d y = (Inr d', fs') \<and>
         \<not> existsSync fs' (uri d) \<and>
         map_of fs' new = Some (File c) \<and>
         getDiagramByName repo fs' y = Inr d'"
proof -
  from assms(4,5) have ne: "uri d \<noteq> new" by (auto simp: existsSync_def)
  have r: "rename fs (uri d) new = Inr fs'"
    using rename_file_ok [OF assms(5) assms(3) assms(4)] assms(6) by simp
  have c: "map_of fs' new = Some (File c)"
    by (simp add: assms(6) update_conv')
  have g: "getDiagramByName repo fs' y = Inr d'"
    using c assms(1,2,7) by (simp add: getDiagramByName_def readFile_def Let_def)
  have gone: "\<not> existsSync fs' (uri d)"
    using ne by (simp add: existsSync_def assms(6) update_conv' delete_conv')
  have "renameDiagram_v1 lower repo fs d y = (Inr d', fs')"
    using assms(1-4) r g
    by (simp add: renameDiagram_v1_def BPMN_FILE_SUFFIX_def Let_def checkWriteablity_def
        checkForDirectory_cases)
  moreover have "renameDiagram_v2 repo fs d y = (Inr d', fs')"
    using assms(1-4) r g
    by (simp add: renameDiagram_v2_def BPMN_FILE_SUFFIX_def Let_def checkWriteablity_def
        checkForDirectory_cases)
  ultimately show ?thesis using c g gone by simp
qed

theorem renameDiagram_free_destination_witness:
  "basePath example_repo = Some ''/sol'' \<and>
   isDirectory example_fs (path_dirname (path_join ''/sol'' (''y'' @ ''.bpmn''))) \<and>
   \<not> existsSync example_fs (path_join ''/sol'' (''y'' @ ''.bpmn'')) \<and>
   map_of example_fs (uri diagram_a) = Some (File ''<a/>'') \<and>
   renameDiagram_v1 toLowerCase_ascii example_repo example_fs diagram_a ''y'' =
     (Inr diagram_y, renamed_fs) \<and>
   renameDiagram_v2 example_repo example_fs diagram_a ''y'' = (Inr diagram_y, renamed_fs) \<and>
   \<not> existsSync renamed_fs (uri diagram_a) \<and>
   map_of renamed_fs (path_join ''/sol'' (''y'' @ ''.bpmn'')) = Some (File ''<a/>'') \<and>
   getDiagramByName example_repo renamed_fs ''y'' = Inr diagram_y"
proof -
  have root: "basePath example_repo = Some ''/sol''"
    by (simp add: example_repo_def)
  have dir: "isDirectory example_fs (path_dirname (path_join ''/sol'' (''y'' @ ''.bpmn'')))"
    and free: "\<not> existsSync example_fs (path_join ''/sol'' (''y'' @ ''.bpmn''))"
    and src: "map_of example_fs (uri diagram_a) = Some (File ''<a/>'')"
    and after: "renamed_fs =
      AList.update (path_join ''/sol'' (''y'' @ ''.bpmn'')) (File ''<a/>'')
        (AList.delete (uri diagram_a) example_fs)"
    and result: "diagram_y =
      \<lparr>name = ''y'', uri = path_join ''/sol'' (''y'' @ ''.bpmn''), xml = ''<a/>'',
       id_field = Some (path_join ''/sol'' (''y'' @ ''.bpmn''))\<rparr>"
    by code_simp+
  from renameDiagram_free_destination [OF root refl dir free src after result,
      where lower = toLowerCase_ascii]
    root dir free src
  show ?thesis by blast
qed

section \<open>Deleting a diagram\<close>

text \<open>
  C8. When the check of the trash folder fails, for whichever reason, \<^verbatim>\<open>deleteDiagram\<close>
  fails with BadRequest in both variants, and the store is left as it is: nothing is
  renamed.
\<close>

theorem deleteDiagram_trash_check:
  "checkForDirectory fs (trashFolderLocation repo) = Inl e \<Longrightarrow>
     deleteDiagram_v1 repo fs d = (Inl BadRequestError, fs) \<and>
     deleteDiagram_v2 repo fs d = (Inl BadRequestError, fs)"
  by (simp add: deleteDiagram_v1_def deleteDiagram_v2_def)

theorem deleteDiagram_trash_check_witness:
  "checkForDirectory example_fs (trashFolderLocation notrash_repo) = Inl NotFoundError \<and>
   deleteDiagram_v1 notrash_repo example_fs diagram_x = (Inl BadRequestError, example_fs) \<and>
   deleteDiagram_v2 notrash_repo example_fs diagram_x = (Inl BadRequestError, example_fs) \<and>
   checkForDirectory example_fs (trashFolderLocation filetrash_repo) = Inl BadRequestError \<and>
   deleteDiagram_v1 filetrash_repo example_fs diagram_x = (Inl BadRequestError, example_fs) \<and>
   deleteDiagram_v2 filetrash_repo example_fs diagram_x = (Inl BadRequestError, example_fs)"
proof -
  have a: "checkForDirectory example_fs (trashFolderLocation notrash_repo) = Inl NotFoundError"
    by (simp add: checkForDirectory_def notrash_repo_def existsSync_def example_fs_lookups)
  have b: "checkForDirectory example_fs (trashFolderLocation filetrash_repo) = Inl BadRequestError"
    by (simp add: checkForDirectory_def filetrash_repo_def existsSync_def isDirectory_def
        example_fs_lookups)
  show ?thesis
    using a b deleteDiagram_trash_check [OF a, of diagram_x]
      deleteDiagram_trash_check [OF b, of diagram_x]
    by simp
qed

text \<open>
  The two searches. With the desired name taken, the first variant ends on the lowest unused
  number; the second variant's loop tests a name only after it has moved on to the next one
  and ends one number higher.
\<close>

lemma lowestUnused_props:
  "a \<le> lowestUnused fs d a"
  "\<not> existsSync fs (candidate d (lowestUnused fs d a))"
  "a \<le> j \<Longrightarrow> j < lowestUnused fs d a \<Longrightarrow> existsSync fs (candidate d j)"
proof -
  let ?P = "\<lambda>k. a \<le> k \<and> \<not> existsSync fs (candidate d k)"
  from unused_candidate_exists [of a fs d] have ex: "\<exists>k. ?P k" by blast
  from LeastI_ex [OF ex] show "a \<le> lowestUnused fs d a"
    and "\<not> existsSync fs (candidate d (lowestUnused fs d a))"
    by (simp_all add: lowestUnused_def)
  show "existsSync fs (candidate d j)" if "a \<le> j" "j < lowestUnused fs d a"
    using that not_less_Least [of j ?P] by (auto simp: lowestUnused_def)
qed

lemma lowestUnused_here:
  "\<not> existsSync fs (candidate d a) \<Longrightarrow> lowestUnused fs d a = a"
  unfolding lowestUnused_def by (rule Least_equality) auto

lemma lowestUnused_next:
  "existsSync fs (candidate d a) \<Longrightarrow> lowestUnused fs d a = lowestUnused fs d (Suc a)"
  unfolding lowestUnused_def by (rule least_unused_step)

lemma findUnusedFilename_loop_result:
  "existsSync fs currentName \<Longrightarrow>
     findUnusedFilename_loop fs d currentName a = candidate d (lowestUnused fs d a)"
proof (induction fs d currentName a rule: findUnusedFilename_loop.induct)
  case (1 fs d currentName a)
  have step: "findUnusedFilename_loop fs d currentName a =
      findUnusedFilename_loop fs d (candidate d a) (a + 1)"
    using "1.prems" by (subst findUnusedFilename_loop.simps) (simp add: candidate_def)
  show ?case
  proof (cases "existsSync fs (candidate d a)")
    case True
    from "1.IH" [OF "1.prems"] True
    have "findUnusedFilename_loop fs d (candidate d a) (a + 1) =
        candidate d (lowestUnused fs d (a + 1))"
      by (simp add: candidate_def)
    with step True show ?thesis by (simp add: lowestUnused_next)
  next
    case False
    then have "findUnusedFilename_loop fs d (candidate d a) (a + 1) = candidate d a"
      by (subst findUnusedFilename_loop.simps) simp
    with step False show ?thesis by (simp add: lowestUnused_here)
  qed
qed

lemma findUnusedFilename_result:
  "findUnusedFilename fs d =
     (if existsSync fs d then candidate d (lowestUnused fs d 1) else d)"
  by (simp add: findUnusedFilename_def findUnusedFilename_loop_result)
    (simp add: findUnusedFilename_loop.simps)

lemma deleteDiagram_v2_loop_result:
  "existsSync fs targetFile \<Longrightarrow>
     deleteDiagram_v2_loop fs d True targetFile a = candidate d (Suc (lowestUnused fs d a))"
proof (induction fs d "True" targetFile a rule: deleteDiagram_v2_loop.induct)
  case (1 fs d targetFile a)
  have step: "deleteDiagram_v2_loop fs d True targetFile a =
      deleteDiagram_v2_loop fs d True (candidate d a) (a + 1)"
    using "1.prems" by (subst deleteDiagram_v2_loop.simps) (simp add: candidate_def)
  show ?case
  proof (cases "existsSync fs (candidate d a)")
    case True
    from "1.hyps" "1.prems" True
    have "deleteDiagram_v2_loop fs d True (candidate d a) (a + 1) =
        candidate d (Suc (lowestUnused fs d (a + 1)))"
      by (simp add: candidate_def)
    with step True show ?thesis by (simp add: lowestUnused_next)
  next
    case False
    then have "deleteDiagram_v2_loop fs d True (candidate d a) (a + 1) = candidate d (Suc a)"
      by (subst deleteDiagram_v2_loop.simps, subst deleteDiagram_v2_loop.simps)
        (simp add: candidate_def)
    with step False show ?thesis by (simp add: lowestUnused_here)
  qed
qed

lemma findUnusedFilename_unused: "\<not> existsSync fs (findUnusedFilename fs d)"
  by (simp add: findUnusedFilename_result lowestUnused_props)

lemma deleteDiagram_v2_target:
  "deleteDiagram_v2_loop fs d (existsSync fs d) d 1 =
     (if existsSync fs d then candidate d (Suc (lowestUnused fs d 1)) else d)"
  by (simp add: deleteDiagram_v2_loop_result) (simp add: deleteDiagram_v2_loop.simps)

lemma deleteDiagram_v1_lowest_unused:
  assumes "isDirectory fs (trashFolderLocation repo)"
    and "map_of fs (uri d) = Some (File c)"
    and "desired = path_join (trashFolderLocation repo) (name d @ ''.bpmn'')"
    and "target = (if existsSync fs desired then candidate desired (lowestUnused fs desired 1)
                   else desired)"
    and "isDirectory fs (path_dirname target)"
    and "fs' = AList.update target (File c) (AList.delete (uri d) fs)"
  shows "deleteDiagram_v1 repo fs d = (Inr (), fs') \<and>
         \<not> existsSync fs target \<and>
         (\<forall>j. existsSync fs desired \<and> 1 \<le> j \<and> j < lowestUnused fs desired 1 \<longrightarrow>
            existsSync fs (candidate desired j)) \<and>
         \<not> existsSync fs' (uri d) \<and>
         map_of fs' target = Some (File c)"
proof -
  have t: "findUnusedFilename fs desired = target"
    by (simp add: findUnusedFilename_result assms(4))
  have free: "\<not> existsSync fs target"
    using findUnusedFilename_unused [of fs desired] by (simp add: t)
  from free assms(2) have ne: "uri d \<noteq> target" by (auto simp: existsSync_def)
  have "rename fs (uri d) target = Inr fs'"
    using rename_file_ok [OF assms(2) assms(5) free] assms(6) by simp
  then have "deleteDiagram_v1 repo fs d = (Inr (), fs')"
    using assms(1,3) t
    by (simp add: deleteDiagram_v1_def checkForDirectory_cases BPMN_FILE_SUFFIX_def Let_def)
  moreover have "\<not> existsSync fs' (uri d)"
    using ne by (simp add: existsSync_def assms(6) update_conv' delete_conv')
  moreover have "map_of fs' target = Some (File c)"
    by (simp add: assms(6) update_conv')
  ultimately show ?thesis using free lowestUnused_props(3) [of 1 _ fs desired] by blast
qed

text \<open>
  C2 holds for the first variant (\<open>deleteDiagram_v1_lowest_unused\<close>) and fails on the
  second: with \<^verbatim>\<open>/trash/x.bpmn\<close> present and \<^verbatim>\<open>/trash/x.bpmn.1\<close> free, deleting the diagram
  \<open>x\<close> moves its file to \<^verbatim>\<open>/trash/x.bpmn.2\<close>, where the first variant moves it to
  \<^verbatim>\<open>/trash/x.bpmn.1\<close>; and when \<^verbatim>\<open>/trash/x.bpmn.2\<close> is present, it is replaced.
\<close>

theorem deleteDiagram_v2_skips_unused_name:
  "existsSync trash_fs ''/trash/x.bpmn'' \<and> \<not> existsSync trash_fs ''/trash/x.bpmn.1'' \<and>
   deleteDiagram_v2 example_repo trash_fs diagram_x =
     (Inr (),
      [(''/'', Directory), (''/sol'', Directory), (''/trash'', Directory),
       (''/trash/x.bpmn'', File ''<old/>''), (''/trash/x.bpmn.2'', File ''<new/>'')]) \<and>
   deleteDiagram_v1 example_repo trash_fs diagram_x =
     (Inr (),
      [(''/'', Directory), (''/sol'', Directory), (''/trash'', Directory),
       (''/trash/x.bpmn'', File ''<old/>''), (''/trash/x.bpmn.1'', File ''<new/>'')]) \<and>
   deleteDiagram_v2 example_repo trash_fs2 diagram_x =
     (Inr (),
      [(''/'', Directory), (''/sol'', Directory), (''/trash'', Directory),
       (''/trash/x.bpmn'', File ''<old/>''), (''/trash/x.bpmn.2'', File ''<new/>'')])"
  by code_simp

section \<open>The id of a diagram read from the store\<close>

lemma readDiagram_v1_id: "readDiagram_v1 fs root f = Inr d \<Longrightarrow> id_field d = None"
  by (auto simp: readDiagram_v1_def Let_def split: sum.splits)

lemma readDiagram_v3_id: "readDiagram_v3 fs root f = Inr d \<Longrightarrow> id_field d = None"
  by (auto simp: readDiagram_v3_def Let_def split: sum.splits)

lemma getDiagrams_v1_id:
  assumes "getDiagrams_v1 repo fs = Inr ds" and "d \<in> set ds"
  shows "id_field d = None"
proof -
  from assms(1) obtain root files where
    p: "promiseAll (map (readDiagram_v1 fs root) files) = Inr ds"
    by (auto simp: getDiagrams_v1_def Let_def split: option.splits sum.splits)
  from promiseAll_Inr [OF p] assms(2) have "Inr d \<in> set (map (readDiagram_v1 fs root) files)"
    by simp
  then obtain f where "readDiagram_v1 fs root f = Inr d" by auto
  then show ?thesis by (rule readDiagram_v1_id)
qed

lemma getDiagrams_v3_id:
  assumes "getDiagrams_v3 repo fs = Inr ds" and "d \<in> set ds"
  shows "id_field d = None"
proof -
  from assms(1) obtain root files where
    p: "promiseAll (map (readDiagram_v3 fs root) files) = Inr ds"
    by (auto simp: getDiagrams_v3_def Let_def split: option.splits sum.splits)
  from promiseAll_Inr [OF p] assms(2) have "Inr d \<in> set (map (readDiagram_v3 fs root) files)"
    by simp
  then obtain f where "readDiagram_v3 fs root f = Inr d" by auto
  then show ?thesis by (rule readDiagram_v3_id)
qed

lemma getDiagramByName_id:
  "getDiagramByName repo fs n = Inr d \<Longrightarrow> id_field d = Some (uri d) \<and> name d = n"
  by (auto simp: getDiagramByName_def Let_def split: option.splits sum.splits)

lemma renameDiagram_v1_result:
  "renameDiagram_v1 lower repo fs d y = (Inr d', fs') \<Longrightarrow>
     getDiagramByName repo fs' y = Inr d'"
  by (auto simp: renameDiagram_v1_def Let_def split: option.splits sum.splits if_splits)

lemma renameDiagram_v2_result:
  "renameDiagram_v2 repo fs d y = (Inr d', fs') \<Longrightarrow> getDiagramByName repo fs' y = Inr d'"
  by (auto simp: renameDiagram_v2_def Let_def split: option.splits sum.splits if_splits)

text \<open>
  C10. A diagram returned by \<^verbatim>\<open>getDiagrams\<close> has no \<open>id\<close>. A diagram returned by
  \<^verbatim>\<open>getDiagramByName\<close> has its \<open>id\<close> set to its \<open>uri\<close>, and so has the diagram
  returned by \<^verbatim>\<open>renameDiagram\<close>, which is the one \<^verbatim>\<open>getDiagramByName\<close> reads after the
  rename.
\<close>

theorem id_field_by_read_operation:
  "(getDiagrams_v1 repo fs = Inr ds \<longrightarrow> (\<forall>d \<in> set ds. id_field d = None)) \<and>
   (getDiagrams_v3 repo fs = Inr ds \<longrightarrow> (\<forall>d \<in> set ds. id_field d = None)) \<and>
   (getDiagramByName repo fs n = Inr d \<longrightarrow> id_field d = Some (uri d)) \<and>
   (renameDiagram_v1 lower repo fs d0 y = (Inr d1, fs1) \<longrightarrow>
      getDiagramByName repo fs1 y = Inr d1 \<and> id_field d1 = Some (uri d1)) \<and>
   (renameDiagram_v2 repo fs d0 y = (Inr d2, fs2) \<longrightarrow>
      getDiagramByName repo fs2 y = Inr d2 \<and> id_field d2 = Some (uri d2))"
  using getDiagrams_v1_id [of repo fs ds] getDiagrams_v3_id [of repo fs ds]
    getDiagramByName_id renameDiagram_v1_result [of lower repo fs d0 y d1 fs1]
    renameDiagram_v2_result [of repo fs d0 y d2 fs2]
  by blast

theorem id_field_by_read_operation_witness:
  "getDiagrams_v1 example_repo example_fs = Inr example_listing \<and>
   getDiagrams_v3 example_repo example_fs = Inr example_listing \<and>
   map id_field example_listing = [None, None] \<and>
   getDiagramByName example_repo example_fs ''a'' = Inr diagram_a_read \<and>
   id_field diagram_a_read = Some (uri diagram_a_read) \<and>
   renameDiagram_v1 toLowerCase_ascii example_repo example_fs diagram_a ''y'' =
     (Inr diagram_y, renamed_fs) \<and>
   renameDiagram_v2 example_repo example_fs diagram_a ''y'' = (Inr diagram_y, renamed_fs) \<and>
   getDiagramByName example_repo renamed_fs ''y'' = Inr diagram_y \<and>
   id_field diagram_y = Some (uri diagram_y)"
proof -
  have listing: "getDiagrams_v1 example_repo example_fs = Inr example_listing"
    "getDiagrams_v3 example_repo example_fs = Inr example_listing"
    by code_simp+
  have byname: "getDiagramByName example_repo example_fs ''a'' = Inr diagram_a_read"
    by code_simp
  have renamed: "renameDiagram_v1 toLowerCase_ascii example_repo example_fs diagram_a ''y'' =
      (Inr diagram_y, renamed_fs)"
    "renameDiagram_v2 example_repo example_fs diagram_a ''y'' = (Inr diagram_y, renamed_fs)"
    by code_simp+
  from id_field_by_read_operation [where repo = example_repo and fs = example_fs
      and ds = example_listing and n = "''a''" and d = diagram_a_read and ?d0.0 = diagram_a
      and y = "''y''" and lower = toLowerCase_ascii and ?d1.0 = diagram_y
      and ?fs1.0 = renamed_fs and ?d2.0 = diagram_y
      and ?fs2.0 = renamed_fs]
    listing byname renamed
  show ?thesis by (simp add: example_listing_def)
qed

end
